theory Spec2Isabelle
  imports Main
begin

section \<open>Python strings and values\<close>

text \<open>
  A Python \<open>str\<close> is modelled as a \<open>string\<close>: a list of characters, each character
  standing for the code point of the same number (0 to 255). The character classes below
  are Python's on that range; text with a code point above 255 is outside the model.
\<close>

definition isspace :: "char \<Rightarrow> bool" where
  \<comment> \<open>\<open>str.isspace\<close>, the class \<open>\s\<close> of \<open>re\<close> and what \<open>str.strip()\<close> removes\<close>
  "isspace c \<longleftrightarrow> c \<in> set [CHR 0x09, CHR 0x0A, CHR 0x0B, CHR 0x0C, CHR 0x0D,
     CHR 0x1C, CHR 0x1D, CHR 0x1E, CHR 0x1F, CHR 0x20, CHR 0x85, CHR 0xA0]"

definition strip :: "string \<Rightarrow> string" where
  "strip s = rev (dropWhile isspace (rev (dropWhile isspace s)))"

definition lower_char :: "char \<Rightarrow> char" where
  "lower_char c =
     (let n = (of_char c :: nat)
      in if (65 \<le> n \<and> n \<le> 90) \<or> (192 \<le> n \<and> n \<le> 222 \<and> n \<noteq> 215)
         then char_of (n + 32) else c)"

definition lower :: "string \<Rightarrow> string" where
  "lower s = map lower_char s"

fun startswith :: "string \<Rightarrow> string \<Rightarrow> bool" where
  "startswith s [] = True"
| "startswith [] (p # ps) = False"
| "startswith (c # cs) (p # ps) = (c = p \<and> startswith cs ps)"

fun str_in :: "string \<Rightarrow> string \<Rightarrow> bool" where
  \<comment> \<open>\<open>needle in hay\<close>\<close>
  "str_in needle [] = (needle = [])"
| "str_in needle (c # cs) = (startswith (c # cs) needle \<or> str_in needle cs)"

text \<open>
  The values a decoded JSON document is made of. Numbers (\<open>int\<close> and \<open>float\<close>) are kept
  in a type of their own: the program only tests them against zero.
\<close>

datatype 'n pyval =
    PNone
  | PBool bool
  | PNum 'n
  | PStr string
  | PList "'n pyval list"
  | PDict "(string \<times> 'n pyval) list"

fun truthy :: "'n::zero pyval \<Rightarrow> bool" where
  "truthy PNone = False"
| "truthy (PBool b) = b"
| "truthy (PNum n) = (n \<noteq> 0)"
| "truthy (PStr s) = (s \<noteq> [])"
| "truthy (PList xs) = (xs \<noteq> [])"
| "truthy (PDict d) = (d \<noteq> [])"

definition py_or :: "'n::zero pyval \<Rightarrow> 'n pyval \<Rightarrow> 'n pyval" where
  \<comment> \<open>\<open>a or b\<close>\<close>
  "py_or a b = (if truthy a then a else b)"

definition dict_get :: "(string \<times> 'n pyval) list \<Rightarrow> string \<Rightarrow> 'n pyval \<Rightarrow> 'n pyval" where
  \<comment> \<open>\<open>d.get(k, default)\<close>\<close>
  "dict_get d k dflt = (case map_of d k of Some v \<Rightarrow> v | None \<Rightarrow> dflt)"

text \<open>
  The exceptions the two scripts meet. \<open>json.loads\<close> raises JSONDecodeError on a text
  that is no JSON document and RecursionError on one nested too deep; \<open>random.choice\<close>
  raises IndexError on an empty list. All of them are subclasses of \<open>Exception\<close>.
\<close>

datatype error = AttributeError | TypeError | JSONDecodeError | RecursionError | IndexError

section \<open>The line pattern\<close>

text \<open>
  \<open>re.match(r'^(\S+)\s+\|\s+(.+)$', line)\<close>. Every \<open>+\<close> is greedy: it first takes
  the longest run of its class and gives characters back, one at a time, while the rest
  of the pattern fails. \<open>greedy n k\<close> tries the continuation \<open>k\<close> on the lengths
  \<open>n\<close>, \<open>n - 1\<close>, ..., \<open>1\<close>. The dot matches everything but a newline, and \<open>$\<close>
  matches at the end of the string and before a newline that ends it.
\<close>

fun greedy :: "nat \<Rightarrow> (nat \<Rightarrow> 'a option) \<Rightarrow> 'a option" where
  "greedy 0 k = None"
| "greedy (Suc n) k = (case k (Suc n) of Some r \<Rightarrow> Some r | None \<Rightarrow> greedy n k)"

definition at_end :: "string \<Rightarrow> bool" where
  "at_end s \<longleftrightarrow> s = [] \<or> s = [CHR 0x0A]"

text \<open>
  One matcher for each suffix of the pattern, from the right: \<open>(.+)$\<close>, then
  \<open>\s+(.+)$\<close>, then \<open>\|\s+(.+)$\<close>, then \<open>\s+\|\s+(.+)$\<close>, each returning the
  second group, and the whole pattern, returning both groups.
\<close>

definition match_payload :: "string \<Rightarrow> string option" where
  "match_payload s =
     greedy (length (takeWhile (\<lambda>c. c \<noteq> CHR 0x0A) s))
       (\<lambda>m. if at_end (drop m s) then Some (take m s) else None)"

definition match_space_payload :: "string \<Rightarrow> string option" where
  "match_space_payload s =
     greedy (length (takeWhile isspace s)) (\<lambda>k. match_payload (drop k s))"

definition match_bar :: "string \<Rightarrow> string option" where
  "match_bar s =
     (case s of
        [] \<Rightarrow> None
      | c # r \<Rightarrow> if c = CHR ''|'' then match_space_payload r else None)"

definition match_space_bar :: "string \<Rightarrow> string option" where
  "match_space_bar s =
     greedy (length (takeWhile isspace s)) (\<lambda>j. match_bar (drop j s))"

definition re_match :: "string \<Rightarrow> (string \<times> string) option" where
  "re_match line =
     greedy (length (takeWhile (\<lambda>c. \<not> isspace c) line))
       (\<lambda>i. case match_space_bar (drop i line) of
              None \<Rightarrow> None
            | Some log_content \<Rightarrow> Some (take i line, log_content))"

section \<open>parse\_log\_line\<close>

record 'n parsed =
  p_service :: "string option"
  p_timestamp :: "'n pyval"
  p_level :: "'n pyval"
  p_message :: "'n pyval"
  p_error :: "'n pyval"
  p_caller :: "'n pyval option"
  p_raw :: string

text \<open>
  \<open>json.loads\<close> is the library's decoder and a parameter here: it raises (\<open>Inl\<close>) or
  returns the decoded value. \<open>load_fields\<close> is the body of the \<open>try\<close> block: a decoded
  value that is no dictionary has no \<open>get\<close>, and the first call of it raises
  AttributeError before any field is written. The key \<open>caller\<close> of the result exists
  only when the document has it.
\<close>

definition load_fields ::
  "(string \<Rightarrow> error + 'n::zero pyval) \<Rightarrow> string \<Rightarrow> 'n parsed \<Rightarrow> error + 'n parsed" where
  "load_fields json_loads log_content result =
     (case json_loads log_content of
        Inl e \<Rightarrow> Inl e
      | Inr (PDict log_data) \<Rightarrow>
          (let result = result\<lparr>
                 p_level := dict_get log_data ''level'' (PStr ''info''),
                 p_message := dict_get log_data ''msg'' (PStr ''''),
                 p_timestamp := dict_get log_data ''ts'' (PNum 0),
                 p_error := dict_get log_data ''error'' (PStr '''')\<rparr>
           in case map_of log_data ''caller'' of
                Some c \<Rightarrow> Inr (result\<lparr>p_caller := Some c\<rparr>)
              | None \<Rightarrow> Inr result)
      | Inr _ \<Rightarrow> Inl AttributeError)"

definition parse_log_line ::
  "(string \<Rightarrow> error + 'n::zero pyval) \<Rightarrow> string \<Rightarrow> error + 'n parsed" where
  "parse_log_line json_loads line =
     (let result = \<lparr>p_service = None, p_timestamp = PNone, p_level = PNone,
                    p_message = PNone, p_error = PNone, p_caller = None,
                    p_raw = strip line\<rparr>
      in case re_match line of
           None \<Rightarrow> Inr result
         | Some (service, log_content) \<Rightarrow>
             let result = result\<lparr>p_service := Some service\<rparr>
             in if startswith log_content ''{'' then
                  (case load_fields json_loads log_content result of
                     Inr result' \<Rightarrow> Inr result'
                   | Inl e \<Rightarrow> \<comment> \<open>\<open>except Exception\<close>\<close>
                       Inr (result\<lparr>p_message := PStr log_content\<rparr>))
                else
                  let result = result\<lparr>p_message := PStr log_content\<rparr>
                  in if str_in ''error'' (lower log_content)
                     then Inr (result\<lparr>p_level := PStr ''error''\<rparr>)
                     else if str_in ''warn'' (lower log_content)
                     then Inr (result\<lparr>p_level := PStr ''warn''\<rparr>)
                     else Inr result)"

section \<open>analyze\_logs\<close>

text \<open>
  The entries of the buckets are dictionaries with fixed keys: one record type for each
  kind. The level buckets are filled before \<open>message\<close> and \<open>error\<close> are used as strings,
  the other three after.
\<close>

record 'n error_entry =
  ee_service :: "string option"
  ee_message :: "'n pyval"
  ee_error :: "'n pyval"
  ee_caller :: "'n pyval"
  ee_raw :: string

record 'n level_entry =
  le_service :: "string option"
  le_message :: "'n pyval"

record 'n fatal_entry =
  fe_service :: "string option"
  fe_message :: "'n pyval"
  fe_error :: "'n pyval"
  fe_raw :: string

record conn_entry =
  ce_service :: "string option"
  ce_message :: string
  ce_error :: string
  ce_raw :: string

record 'n startup_entry =
  su_service :: "string option"
  su_message :: string
  su_timestamp :: "'n pyval"

record health_entry =
  hc_service :: "string option"
  hc_message :: string
  hc_status :: string

record 'n analysis =
  services :: "(string \<times> nat) list"
  errors :: "'n error_entry list"
  warnings :: "'n level_entry list"
  info :: "'n level_entry list"
  fatal :: "'n fatal_entry list"
  connection_errors :: "conn_entry list"
  startup_sequence :: "'n startup_entry list"
  health_checks :: "health_entry list"
  service_status :: "(string \<times> 'n pyval) list"

definition empty_analysis :: "'n analysis" where
  "empty_analysis = \<lparr>services = [], errors = [], warnings = [], info = [], fatal = [],
     connection_errors = [], startup_sequence = [], health_checks = [],
     service_status = []\<rparr>"

text \<open>
  \<open>services\<close> is a \<open>defaultdict(int)\<close>: a key is created with 0 when it is first
  incremented, and the dictionary keeps the keys in the order of their creation.
\<close>

fun incr :: "string \<Rightarrow> (string \<times> nat) list \<Rightarrow> (string \<times> nat) list" where
  "incr k [] = [(k, 1)]"
| "incr k ((k', n) # rest) = (if k = k' then (k', n + 1) # rest else (k', n) # incr k rest)"

definition count_service :: "'n parsed \<Rightarrow> 'n analysis \<Rightarrow> 'n analysis" where
  \<comment> \<open>lines 79-80; \<open>if parsed['service']\<close> is false for \<open>None\<close> and for the empty string\<close>
  "count_service parsed analysis =
     (case p_service parsed of
        None \<Rightarrow> analysis
      | Some service \<Rightarrow>
          if service \<noteq> [] then analysis\<lparr>services := incr service (services analysis)\<rparr>
          else analysis)"

definition py_lower :: "'n pyval \<Rightarrow> error + string" where
  \<comment> \<open>\<open>v.lower()\<close>: only a \<open>str\<close> has the method\<close>
  "py_lower v = (case v of PStr s \<Rightarrow> Inr (lower s) | _ \<Rightarrow> Inl AttributeError)"

definition route_level ::
  "string \<Rightarrow> 'n pyval \<Rightarrow> 'n pyval \<Rightarrow> 'n parsed \<Rightarrow> 'n analysis \<Rightarrow> 'n analysis" where
  \<comment> \<open>lines 87-111\<close>
  "route_level level message error parsed analysis =
     (if level = ''error'' then
        analysis\<lparr>errors := errors analysis @
          [\<lparr>ee_service = p_service parsed, ee_message = message, ee_error = error,
            ee_caller = (case p_caller parsed of Some c \<Rightarrow> c | None \<Rightarrow> PStr ''''),
            ee_raw = p_raw parsed\<rparr>]\<rparr>
      else if level = ''warn'' then
        analysis\<lparr>warnings := warnings analysis @
          [\<lparr>le_service = p_service parsed, le_message = message\<rparr>]\<rparr>
      else if level = ''fatal'' then
        analysis\<lparr>fatal := fatal analysis @
          [\<lparr>fe_service = p_service parsed, fe_message = message, fe_error = error,
            fe_raw = p_raw parsed\<rparr>]\<rparr>
      else if level = ''info'' then
        analysis\<lparr>info := info analysis @
          [\<lparr>le_service = p_service parsed, le_message = message\<rparr>]\<rparr>
      else analysis)"

definition is_connection_error :: "string \<Rightarrow> bool" where
  "is_connection_error full_text \<longleftrightarrow>
     str_in ''connection refused'' full_text \<or> str_in ''connect() failed'' full_text
     \<or> str_in ''dial error'' full_text"

definition find_connection_errors ::
  "string \<Rightarrow> string \<Rightarrow> 'n parsed \<Rightarrow> 'n analysis \<Rightarrow> 'n analysis" where
  \<comment> \<open>lines 114-121, \<open>message\<close> and \<open>error\<close> being strings\<close>
  "find_connection_errors message error parsed analysis =
     (let full_text = lower (message @ '' '' @ error)
      in if is_connection_error full_text then
           analysis\<lparr>connection_errors := connection_errors analysis @
             [\<lparr>ce_service = p_service parsed, ce_message = message,
               ce_error = error, ce_raw = p_raw parsed\<rparr>]\<rparr>
         else analysis)"

definition is_startup :: "string \<Rightarrow> bool" where
  "is_startup message \<longleftrightarrow>
     list_ex (\<lambda>keyword. str_in keyword (lower message))
       [''starting'', ''started'', ''connected'', ''initialized'']"

definition find_startup :: "string \<Rightarrow> 'n parsed \<Rightarrow> 'n analysis \<Rightarrow> 'n analysis" where
  \<comment> \<open>lines 124-129\<close>
  "find_startup message parsed analysis =
     (if is_startup message then
        analysis\<lparr>startup_sequence := startup_sequence analysis @
          [\<lparr>su_service = p_service parsed, su_message = message,
            su_timestamp = p_timestamp parsed\<rparr>]\<rparr>
      else analysis)"

definition is_health :: "string \<Rightarrow> bool" where
  "is_health message \<longleftrightarrow> str_in ''health'' (lower message) \<or> str_in ''/health'' message"

definition health_status :: "string \<Rightarrow> string" where
  \<comment> \<open>read off the line itself\<close>
  \<open>health_status line = (if str_in ''status":200'' line then ''200'' else ''unknown'')\<close>

definition find_health :: "string \<Rightarrow> string \<Rightarrow> 'n parsed \<Rightarrow> 'n analysis \<Rightarrow> 'n analysis" where
  \<comment> \<open>lines 132-137\<close>
  "find_health line message parsed analysis =
     (if is_health message then
        analysis\<lparr>health_checks := health_checks analysis @
          [\<lparr>hc_service = p_service parsed, hc_message = message,
            hc_status = health_status line\<rparr>]\<rparr>
      else analysis)"

text \<open>
  \<open>classify\<close> is the body of the loop after the call of \<open>parse_log_line\<close> (lines 79-137).
  \<open>(level or 'info').lower()\<close> raises AttributeError when the level is a true value that
  is no string; \<open>message + ' ' + error\<close> raises TypeError when either is a true value
  that is no string. Neither exception is caught: it ends \<open>analyze_logs\<close>.
\<close>

definition classify :: "string \<Rightarrow> 'n::zero parsed \<Rightarrow> 'n analysis \<Rightarrow> error + 'n analysis" where
  "classify line parsed analysis =
     (let analysis = count_service parsed analysis
      in case py_lower (py_or (p_level parsed) (PStr ''info'')) of
           Inl e \<Rightarrow> Inl e
         | Inr level \<Rightarrow>
             let message = py_or (p_message parsed) (PStr '''');
                 error = py_or (p_error parsed) (PStr '''');
                 analysis = route_level level message error parsed analysis
             in (case (message, error) of
                   (PStr m, PStr e) \<Rightarrow>
                     Inr (find_health line m parsed
                           (find_startup m parsed
                             (find_connection_errors m e parsed analysis)))
                 | _ \<Rightarrow> Inl TypeError))"

definition process_line ::
  "(string \<Rightarrow> error + 'n::zero pyval) \<Rightarrow> string \<Rightarrow> 'n analysis \<Rightarrow> error + 'n analysis" where
  "process_line json_loads line analysis =
     (case parse_log_line json_loads line of
        Inl e \<Rightarrow> Inl e
      | Inr parsed \<Rightarrow> classify line parsed analysis)"

fun run_lines ::
  "(string \<Rightarrow> error + 'n::zero pyval) \<Rightarrow> string list \<Rightarrow> 'n analysis \<Rightarrow> error + 'n analysis" where
  "run_lines json_loads [] analysis = Inr analysis"
| "run_lines json_loads (line # rest) analysis =
     (if strip line = [] then run_lines json_loads rest analysis
      else case process_line json_loads line analysis of
             Inl e \<Rightarrow> Inl e
           | Inr analysis' \<Rightarrow> run_lines json_loads rest analysis')"

definition analyze_logs ::
  "(string \<Rightarrow> error + 'n::zero pyval) \<Rightarrow> string list \<Rightarrow> error + 'n analysis" where
  "analyze_logs json_loads logs = run_lines json_loads logs empty_analysis"

text \<open>
  Two things in an aggregate are read off the whole line rather than off the parsed
  fields: the \<open>raw\<close> text kept in the entries of \<open>errors\<close>, \<open>fatal\<close> and
  \<open>connection_errors\<close>, and the \<open>status\<close> of a health check. \<open>forget_line\<close> blanks
  them, to compare two aggregates in everything else.
\<close>

definition forget_line :: "'n analysis \<Rightarrow> 'n analysis" where
  "forget_line a = a\<lparr>
     errors := map (\<lambda>x. x\<lparr>ee_raw := ''''\<rparr>) (errors a),
     fatal := map (\<lambda>x. x\<lparr>fe_raw := ''''\<rparr>) (fatal a),
     connection_errors := map (\<lambda>x. x\<lparr>ce_raw := ''''\<rparr>) (connection_errors a),
     health_checks := map (\<lambda>x. x\<lparr>hc_status := ''''\<rparr>) (health_checks a)\<rparr>"

section \<open>print\_analysis: the connection errors\<close>

text \<open>
  The section of the report on the connection errors, after its heading (lines 185-202).
  The texts are Vietnamese; each printed line is a constructor here, with the values it is formatted
  from: \<open>ConnHeader i service\<close> for the heading of entry \<open>i\<close>, \<open>ConnMessage\<close> and
  \<open>ConnError\<close> for the cut message and error, and one constructor for each of the three
  fixed labels: the Fabric peer (port 7051), PostgreSQL (port 5432) and the API gateway
  behind Nginx (port 8080).
\<close>

datatype out_line =
    ConnHeader nat "string option"
  | ConnMessage string
  | ConnError string
  | LabelFabricPeer7051
  | LabelPostgreSQL5432
  | LabelApiGateway8080
  | NoConnectionErrors

definition connection_label :: "string \<Rightarrow> out_line list" where
  \<comment> \<open>lines 193-200\<close>
  "connection_label raw =
     (if str_in ''172.21.0.'' raw \<or> str_in ''7051'' raw \<or> str_in ''5432'' raw then
        (if str_in ''7051'' raw then [LabelFabricPeer7051]
         else if str_in ''5432'' raw then [LabelPostgreSQL5432]
         else if str_in ''8080'' raw then [LabelApiGateway8080]
         else [])
      else [])"

definition print_conn_err :: "nat \<Rightarrow> conn_entry \<Rightarrow> out_line list" where
  "print_conn_err i conn_err =
     [ConnHeader i (ce_service conn_err)]
     @ (if ce_message conn_err \<noteq> [] then [ConnMessage (take 100 (ce_message conn_err))] else [])
     @ (if ce_error conn_err \<noteq> [] then [ConnError (take 150 (ce_error conn_err))] else [])
     @ connection_label (ce_raw conn_err)"

definition print_connection_errors :: "'n analysis \<Rightarrow> out_line list" where
  "print_connection_errors analysis =
     (if connection_errors analysis \<noteq> [] then
        concat (map (\<lambda>(i, conn_err). print_conn_err i conn_err)
                 (zip [1 ..< Suc (length (connection_errors analysis))]
                      (connection_errors analysis)))
      else [NoConnectionErrors])"

section \<open>generate\_seed\<close>

text \<open>
  The script draws UUIDs and random numbers and reads the clock. They are the fields of
  an environment, indexed by the number of the draw: \<open>uuid4_hex k\<close> is the \<open>hex\<close> of the
  UUID drawn as number \<open>k\<close> (32 hexadecimal digits), \<open>random_raw k\<close> is the random
  source behind call number \<open>k\<close> of \<open>randint\<close> or \<open>choice\<close>, and \<open>days_ago_iso k d\<close> is
  \<open>(datetime.now() - timedelta(days=d)).isoformat()\<close> at reading number \<open>k\<close> of the
  clock. \<open>sha256_hexdigest\<close> is the library's hash.
\<close>

record env =
  uuid4_hex :: "nat \<Rightarrow> string"
  random_raw :: "nat \<Rightarrow> nat"
  days_ago_iso :: "nat \<Rightarrow> int \<Rightarrow> string"
  sha256_hexdigest :: "string \<Rightarrow> string"

text \<open>
  A row is what one \<open>INSERT\<close> statement is formatted from; \<open>sql_of\<close> is the template of
  the statement, the same in the four loops.
\<close>

record row =
  r_tx_id :: string
  r_channel_name :: string
  r_chaincode_name :: string
  r_function_name :: string
  r_args :: "string list"
  r_status :: string
  r_block_number :: int
  r_block_hash :: string
  r_timestamp :: string

record gen =
  n_uuid :: nat
  n_random :: nat
  n_clock :: nat
  batches :: "string list"
  packages :: "string list"
  sql_rows :: "row list"

definition digit_char :: "nat \<Rightarrow> char" where
  "digit_char d = char_of (48 + d)"

fun str_nat :: "nat \<Rightarrow> string" where
  "str_nat n = (if n < 10 then [digit_char n] else str_nat (n div 10) @ [digit_char (n mod 10)])"

definition str_int :: "int \<Rightarrow> string" where
  "str_int i = (if i < 0 then ''-'' @ str_nat (nat (- i)) else str_nat (nat i))"

definition upper_hex :: "string \<Rightarrow> string" where
  \<comment> \<open>\<open>upper()\<close> of a string of hexadecimal digits\<close>
  "upper_hex s = map (\<lambda>c. let n = (of_char c :: nat)
                          in if 97 \<le> n \<and> n \<le> 122 then char_of (n - 32) else c) s"

definition uuid_str :: "string \<Rightarrow> string" where
  \<comment> \<open>\<open>str(u)\<close> from \<open>u.hex\<close>: the digits in groups of 8, 4, 4, 4 and 12\<close>
  "uuid_str h = take 8 h @ ''-'' @ take 4 (drop 8 h) @ ''-'' @ take 4 (drop 12 h) @ ''-''
     @ take 4 (drop 16 h) @ ''-'' @ drop 20 h"

definition squote :: "string \<Rightarrow> string" where
  "squote s = [CHR 0x27] @ s @ [CHR 0x27]"

definition dquote :: "string \<Rightarrow> string" where
  "dquote s = [CHR 0x22] @ s @ [CHR 0x22]"

fun join :: "string \<Rightarrow> string list \<Rightarrow> string" where
  "join sep [] = []"
| "join sep [x] = x"
| "join sep (x # y # ys) = x @ sep @ join sep (y # ys)"

definition args_text :: "string list \<Rightarrow> string" where
  "args_text xs = ''['' @ join '', '' (map dquote xs) @ '']''"

definition sql_of :: "row \<Rightarrow> string" where
  "sql_of r =
     ''INSERT INTO transactions (id, tx_id, channel_name, chaincode_name, function_name, args, status, block_number, block_hash, timestamp) ''
     @ [CHR 0x0A] @ ''    VALUES (gen_random_uuid(), '' @ squote (r_tx_id r) @ '', ''
     @ squote (r_channel_name r) @ '', '' @ squote (r_chaincode_name r) @ '', ''
     @ squote (r_function_name r) @ '', '' @ squote (args_text (r_args r)) @ '', ''
     @ squote (r_status r) @ '', '' @ str_int (r_block_number r) @ '', ''
     @ squote (r_block_hash r) @ '', '' @ squote (r_timestamp r) @ '');''"

definition uuid4 :: "env \<Rightarrow> gen \<Rightarrow> string \<times> gen" where
  "uuid4 env g = (uuid4_hex env (n_uuid g), g\<lparr>n_uuid := Suc (n_uuid g)\<rparr>)"

definition generate_tx_id :: "env \<Rightarrow> gen \<Rightarrow> string \<times> gen" where
  "generate_tx_id env g = (let (u, g) = uuid4 env g in (sha256_hexdigest env (uuid_str u), g))"

definition generate_block_hash :: "env \<Rightarrow> gen \<Rightarrow> string \<times> gen" where
  "generate_block_hash env g =
     (let (u, g) = uuid4 env g in (sha256_hexdigest env (uuid_str u), g))"

definition randint :: "env \<Rightarrow> int \<Rightarrow> int \<Rightarrow> gen \<Rightarrow> int \<times> gen" where
  "randint env a b g =
     (a + int (random_raw env (n_random g) mod nat (b - a + 1)),
      g\<lparr>n_random := Suc (n_random g)\<rparr>)"

definition choice :: "env \<Rightarrow> string list \<Rightarrow> gen \<Rightarrow> error + string \<times> gen" where
  "choice env xs g =
     (if xs = [] then Inl IndexError
      else Inr (xs ! (random_raw env (n_random g) mod length xs),
                g\<lparr>n_random := Suc (n_random g)\<rparr>))"

definition get_timestamp :: "env \<Rightarrow> int \<Rightarrow> gen \<Rightarrow> string \<times> gen" where
  "get_timestamp env days_ago g =
     (days_ago_iso env (n_clock g) days_ago, g\<lparr>n_clock := Suc (n_clock g)\<rparr>)"

definition add_row ::
  "string \<Rightarrow> string \<Rightarrow> string list \<Rightarrow> int \<Rightarrow> string \<Rightarrow> string \<Rightarrow> gen \<Rightarrow> gen" where
  \<comment> \<open>\<open>sql_statements.append(sql)\<close>\<close>
  "add_row tx_id function_name args block_number block_hash timestamp g =
     g\<lparr>sql_rows := sql_rows g @
       [\<lparr>r_tx_id = tx_id, r_channel_name = ''ibnchannel'', r_chaincode_name = ''teatrace'',
         r_function_name = function_name, r_args = args, r_status = ''VALID'',
         r_block_number = block_number, r_block_hash = block_hash,
         r_timestamp = timestamp\<rparr>]\<rparr>"

definition create_batch :: "env \<Rightarrow> nat \<Rightarrow> gen \<Rightarrow> error + gen" where
  \<comment> \<open>lines 22-33\<close>
  "create_batch env i g =
     (let (tx_id, g) = generate_tx_id env g;
          (u, g) = uuid4 env g;
          batch_id = ''BATCH_'' @ upper_hex (take 8 u);
          g = g\<lparr>batches := batches g @ [batch_id]\<rparr>;
          (block_number, g) = randint env 10 100 g;
          (block_hash, g) = generate_block_hash env g;
          (days, g) = randint env 5 10 g;
          (timestamp, g) = get_timestamp env days g;
          args = [batch_id, ''Tea Batch '' @ str_nat (i + 1), ''Organic Green Tea'', ''1000kg'']
      in Inr (add_row tx_id ''CreateBatch'' args block_number block_hash timestamp g))"

definition create_package :: "env \<Rightarrow> nat \<Rightarrow> gen \<Rightarrow> error + gen" where
  \<comment> \<open>lines 37-49\<close>
  "create_package env i g =
     (let (tx_id, g) = generate_tx_id env g;
          (u, g) = uuid4 env g;
          package_id = ''PKG_'' @ upper_hex (take 8 u);
          g = g\<lparr>packages := packages g @ [package_id]\<rparr>
      in case choice env (batches g) g of
           Inl e \<Rightarrow> Inl e
         | Inr (batch_id, g) \<Rightarrow>
             let (block_number, g) = randint env 101 200 g;
                 (block_hash, g) = generate_block_hash env g;
                 (days, g) = randint env 3 5 g;
                 (timestamp, g) = get_timestamp env days g;
                 args = [package_id, batch_id, ''Premium Tea Package'', ''500g'']
             in Inr (add_row tx_id ''CreatePackage'' args block_number block_hash timestamp g))"

definition update_package :: "env \<Rightarrow> nat \<Rightarrow> gen \<Rightarrow> error + gen" where
  \<comment> \<open>lines 53-63\<close>
  "update_package env i g =
     (let (tx_id, g) = generate_tx_id env g
      in case choice env (packages g) g of
           Inl e \<Rightarrow> Inl e
         | Inr (package_id, g) \<Rightarrow>
             let (block_number, g) = randint env 201 300 g;
                 (block_hash, g) = generate_block_hash env g;
                 (days, g) = randint env 1 2 g;
                 (timestamp, g) = get_timestamp env days g;
                 args = [package_id, ''PROCESSING'', ''Drying tea leaves'']
             in Inr (add_row tx_id ''UpdatePackage'' args block_number block_hash timestamp g))"

definition transfer_package :: "env \<Rightarrow> nat \<Rightarrow> gen \<Rightarrow> error + gen" where
  \<comment> \<open>lines 67-77\<close>
  "transfer_package env i g =
     (let (tx_id, g) = generate_tx_id env g
      in case choice env (packages g) g of
           Inl e \<Rightarrow> Inl e
         | Inr (package_id, g) \<Rightarrow>
             let (block_number, g) = randint env 301 400 g;
                 (block_hash, g) = generate_block_hash env g;
                 (timestamp, g) = get_timestamp env 0 g;
                 args = [package_id, ''Distributor A'', ''Retailer B'']
             in Inr (add_row tx_id ''TransferPackage'' args block_number block_hash timestamp g))"

fun for_range :: "nat list \<Rightarrow> (nat \<Rightarrow> gen \<Rightarrow> error + gen) \<Rightarrow> gen \<Rightarrow> error + gen" where
  \<comment> \<open>\<open>for i in range(n): body\<close>, over the list of the values of \<open>i\<close>\<close>
  "for_range [] body g = Inr g"
| "for_range (i # rest) body g =
     (case body i g of Inl e \<Rightarrow> Inl e | Inr g' \<Rightarrow> for_range rest body g')"

definition initial_gen :: gen where
  "initial_gen = \<lparr>n_uuid = 0, n_random = 0, n_clock = 0, batches = [], packages = [],
     sql_rows = []\<rparr>"

definition seed_rows :: "env \<Rightarrow> error + row list" where
  "seed_rows env =
     (case for_range [0 ..< 5] (create_batch env) initial_gen of
        Inl e \<Rightarrow> Inl e
      | Inr g1 \<Rightarrow>
     (case for_range [0 ..< 10] (create_package env) g1 of
        Inl e \<Rightarrow> Inl e
      | Inr g2 \<Rightarrow>
     (case for_range [0 ..< 8] (update_package env) g2 of
        Inl e \<Rightarrow> Inl e
      | Inr g3 \<Rightarrow>
     (case for_range [0 ..< 5] (transfer_package env) g3 of
        Inl e \<Rightarrow> Inl e
      | Inr g4 \<Rightarrow> Inr (sql_rows g4)))))"

definition generate_seed :: "env \<Rightarrow> error + string" where
  \<comment> \<open>the text the script prints\<close>
  "generate_seed env =
     (case seed_rows env of
        Inl e \<Rightarrow> Inl e
      | Inr rows \<Rightarrow> Inr (join [CHR 0x0A] (map sql_of rows)))"

definition row_ok :: "string \<Rightarrow> row \<Rightarrow> bool" where
  \<comment> \<open>what every loop gives a row: the literal columns, the function name of the loop,
     at least one argument and a block number that is not negative\<close>
  "row_ok fn r \<longleftrightarrow> r_function_name r = fn \<and> r_status r = ''VALID''
     \<and> r_channel_name r = ''ibnchannel'' \<and> r_chaincode_name r = ''teatrace''
     \<and> r_args r \<noteq> [] \<and> 0 \<le> r_block_number r"

section \<open>Sample inputs\<close>

text \<open>
  What \<open>json.loads\<close> returns on the documents of the examples below, and that it raises
  on the text \<open>{not json\<close>. The examples consult it on these texts only.
\<close>

definition sample_loads :: "string \<Rightarrow> error + int pyval" where
  \<open>sample_loads s =
     (if s = ''{"level":"error","msg":"m","error":"e"}'' then
        Inr (PDict [(''level'', PStr ''error''), (''msg'', PStr ''m''), (''error'', PStr ''e'')])
      else if s = ''{"level":"info","msg":"GET /health","status":200}'' then
        Inr (PDict [(''level'', PStr ''info''), (''msg'', PStr ''GET /health''),
                    (''status'', PNum 200)])
      else if s = ''{"level":"info","msg":"GET /health","status":500}'' then
        Inr (PDict [(''level'', PStr ''info''), (''msg'', PStr ''GET /health''),
                    (''status'', PNum 500)])
      else if s = ''{"level":"fatal","msg":"Failed to connect to database","error":"dial error (connection refused)"}'' then
        Inr (PDict [(''level'', PStr ''fatal''), (''msg'', PStr ''Failed to connect to database''),
                    (''error'', PStr ''dial error (connection refused)'')])
      else if s = ''{"level":5}'' then
        Inr (PDict [(''level'', PNum 5)])
      else Inl JSONDecodeError)\<close>

definition sample_logs :: "string list" where
  \<open>sample_logs =
     [''svc | {"level":"error","msg":"m","error":"e"}'',
      '''',
      ''connection refused'',
      ''web | connect() failed upstream 10.0.0.5:8080'',
      ''api | {"level":"info","msg":"GET /health","status":200}'',
      ''api | {"level":"fatal","msg":"Failed to connect to database","error":"dial error (connection refused)"}'',
      ''x | {not json'']\<close>

definition fatal_line :: string where
  \<open>fatal_line = ''api | {"level":"fatal","msg":"Failed to connect to database","error":"dial error (connection refused)"}''\<close>

definition health_line_200 :: string where
  \<open>health_line_200 = ''api | {"level":"info","msg":"GET /health","status":200}''\<close>

definition health_line_500 :: string where
  \<open>health_line_500 = ''api | {"level":"info","msg":"GET /health","status":500}''\<close>

text \<open>
  The connection error of a line of Nginx, as \<open>analyze_logs\<close> records it, and a line
  that names two ports.
\<close>

definition nginx_entry :: conn_entry where
  \<open>nginx_entry = \<lparr>ce_service = Some ''api-gateway-nginx'',
     ce_message = ''connect() failed (111: Connection refused) while connecting to upstream, upstream: "http://172.21.0.15:8080/health"'',
     ce_error = '''',
     ce_raw = ''api-gateway-nginx | connect() failed (111: Connection refused) while connecting to upstream, upstream: "http://172.21.0.15:8080/health"''\<rparr>\<close>

definition gateway_line :: string where
  "gateway_line = ''gw | dial error 172.21.0.26:7051 via proxy :8080''"

text \<open>An environment to run the seed generator in; any other would do.\<close>

definition sample_env :: env where
  "sample_env = \<lparr>uuid4_hex = (\<lambda>k. str_nat (10 + k mod 90) @ ''ab0123456789abcdef0123456789cd''),
     random_raw = (\<lambda>k. 7 * k + 3),
     days_ago_iso = (\<lambda>k d. ''2025-11-'' @ str_nat (nat (20 - d)) @ ''T00:00:00''),
     sha256_hexdigest = (\<lambda>s. rev s)\<rparr>"

section \<open>Facts about the line pattern\<close>

lemma greedy_SomeD: "greedy n k = Some r \<Longrightarrow> \<exists>i. 0 < i \<and> i \<le> n \<and> k i = Some r"
proof (induction n)
  case 0
  then show ?case by simp
next
  case (Suc n)
  show ?case
  proof (cases "k (Suc n)")
    case None
    with Suc.prems have "greedy n k = Some r" by simp
    from Suc.IH [OF this] show ?thesis by (meson le_Suc_eq)
  next
    case (Some a)
    with Suc.prems have "a = r" by simp
    with Some show ?thesis by blast
  qed
qed

lemma greedy_first: "0 < n \<Longrightarrow> k n = Some r \<Longrightarrow> greedy n k = Some r"
  by (cases n) simp_all

lemma match_payload_nonempty: "match_payload s = Some p \<Longrightarrow> p \<noteq> []"
proof -
  assume "match_payload s = Some p"
  then obtain m where m: "0 < m" "m \<le> length (takeWhile (\<lambda>c. c \<noteq> CHR 0x0A) s)"
    and p: "p = take m s"
    unfolding match_payload_def by (fastforce dest!: greedy_SomeD split: if_splits)
  have "length (takeWhile (\<lambda>c. c \<noteq> CHR 0x0A) s) \<le> length s"
    by (rule length_takeWhile_le)
  with m p show ?thesis by auto
qed

lemma take_takeWhile_all:
  assumes "i \<le> length (takeWhile P xs)"
  shows "\<forall>x \<in> set (take i xs). P x"
proof -
  have "take i xs = take i (takeWhile P xs)"
    using assms by (metis takeWhile_eq_take take_take min.absorb1 min.commute)
  then have "set (take i xs) \<subseteq> set (takeWhile P xs)"
    by (metis set_take_subset)
  then show ?thesis by (auto dest: set_takeWhileD)
qed

lemma re_match_service:
  assumes "re_match line = Some (service, log_content)"
  shows "service \<noteq> [] \<and> (\<forall>c \<in> set service. \<not> isspace c)"
proof -
  from assms obtain i where i: "0 < i" "i \<le> length (takeWhile (\<lambda>c. \<not> isspace c) line)"
    and s: "service = take i line"
    unfolding re_match_def by (fastforce dest!: greedy_SomeD split: option.splits)
  have "length (takeWhile (\<lambda>c. \<not> isspace c) line) \<le> length line"
    by (rule length_takeWhile_le)
  with i s have "service \<noteq> []" by auto
  moreover from take_takeWhile_all [OF i(2)] s have "\<forall>c \<in> set service. \<not> isspace c"
    by simp
  ultimately show ?thesis by blast
qed

lemma re_match_payload_nonempty:
  assumes "re_match line = Some (service, log_content)"
  shows "log_content \<noteq> []"
proof -
  from assms obtain i where "match_space_bar (drop i line) = Some log_content"
    unfolding re_match_def by (fastforce dest!: greedy_SomeD split: option.splits)
  then obtain j where "match_bar (drop j (drop i line)) = Some log_content"
    unfolding match_space_bar_def by (fastforce dest!: greedy_SomeD)
  then obtain r where "match_space_payload r = Some log_content"
    unfolding match_bar_def by (auto split: list.splits if_splits)
  then obtain k where "match_payload (drop k r) = Some log_content"
    unfolding match_space_payload_def by (fastforce dest!: greedy_SomeD)
  then show ?thesis by (rule match_payload_nonempty)
qed

lemma takeWhile_run:
  assumes "\<forall>x \<in> set xs. P x" and "ys = [] \<or> \<not> P (hd ys)"
  shows "takeWhile P (xs @ ys) = xs"
  using assms by (cases ys) (auto simp: takeWhile_append2)

lemma match_payload_whole:
  assumes "p \<noteq> []" and "CHR 0x0A \<notin> set p"
  shows "match_payload p = Some p"
proof -
  have "takeWhile (\<lambda>c. c \<noteq> CHR 0x0A) p = p"
    using assms(2) by (auto intro: takeWhile_eq_all_conv [THEN iffD2])
  then have n: "length (takeWhile (\<lambda>c. c \<noteq> CHR 0x0A) p) = length p"
    by (rule arg_cong)
  show ?thesis
    unfolding match_payload_def n using assms(1)
    by (intro greedy_first) (simp_all add: at_end_def)
qed

lemma re_match_form:
  assumes svc: "svc \<noteq> []" "\<forall>c \<in> set svc. \<not> isspace c"
    and w1: "w1 \<noteq> []" "\<forall>c \<in> set w1. isspace c"
    and w2: "w2 \<noteq> []" "\<forall>c \<in> set w2. isspace c"
    and p: "p \<noteq> []" "\<not> isspace (hd p)" "CHR 0x0A \<notin> set p"
  shows "re_match (svc @ w1 @ ''|'' @ w2 @ p) = Some (svc, p)"
proof -
  have bar: "\<not> isspace CHR ''|''" by (simp add: isspace_def)
  have 1: "match_space_payload (w2 @ p) = Some p"
  proof -
    have "takeWhile isspace (w2 @ p) = w2"
      using w2 p by (intro takeWhile_run) auto
    then show ?thesis
      unfolding match_space_payload_def using w2(1) match_payload_whole [OF p(1) p(3)]
      by (simp add: greedy_first)
  qed
  have 2: "match_space_bar (w1 @ ''|'' @ w2 @ p) = Some p"
  proof -
    have "takeWhile isspace (w1 @ ''|'' @ w2 @ p) = w1"
      using w1 bar by (intro takeWhile_run) auto
    then show ?thesis
      unfolding match_space_bar_def using w1(1) 1
      by (simp add: greedy_first match_bar_def)
  qed
  have "takeWhile (\<lambda>c. \<not> isspace c) (svc @ w1 @ ''|'' @ w2 @ p) = svc"
    using svc w1 by (intro takeWhile_run) (auto simp: hd_append)
  then show ?thesis
    unfolding re_match_def using svc(1) 2
    by (simp add: greedy_first)
qed

lemma strip_nonblank: "s \<noteq> [] \<Longrightarrow> \<not> isspace (hd s) \<Longrightarrow> strip s \<noteq> []"
  by (cases s) (simp_all add: strip_def)

lemma startswith_brace: "startswith s ''{'' \<longleftrightarrow> (\<exists>t. s = CHR ''{'' # t)"
  by (cases s) auto

section \<open>Facts about parse\_log\_line and the loop body\<close>

lemma load_fields_dict:
  "json_loads log_content = Inr (PDict d) \<Longrightarrow> p_caller result = None \<Longrightarrow>
     load_fields json_loads log_content result =
       Inr (result\<lparr>p_level := dict_get d ''level'' (PStr ''info''),
                   p_message := dict_get d ''msg'' (PStr []),
                   p_timestamp := dict_get d ''ts'' (PNum 0),
                   p_error := dict_get d ''error'' (PStr []),
                   p_caller := map_of d ''caller''\<rparr>)"
  by (simp add: load_fields_def Let_def split: option.splits)

lemma load_fields_no_dict:
  assumes "\<forall>d. json_loads log_content \<noteq> Inr (PDict d)"
  shows "\<exists>e. load_fields json_loads log_content result = Inl e"
  using assms by (auto simp: load_fields_def split: sum.splits pyval.splits)

lemma parse_log_line_service:
  "parse_log_line json_loads line = Inr parsed \<Longrightarrow>
     p_service parsed = map_option fst (re_match line)"
  by (auto simp: parse_log_line_def load_fields_def Let_def
      split: option.splits sum.splits if_splits pyval.splits)

lemma parse_log_line_raw:
  "parse_log_line json_loads line = Inr parsed \<Longrightarrow> p_raw parsed = strip line"
  by (auto simp: parse_log_line_def load_fields_def Let_def
      split: option.splits sum.splits if_splits pyval.splits)

lemma parse_json_line:
  assumes "re_match line = Some (service, payload)" and "startswith payload ''{''"
    and "json_loads payload = Inr (PDict d)"
  shows "parse_log_line json_loads line =
      Inr \<lparr>p_service = Some service, p_timestamp = dict_get d ''ts'' (PNum 0),
           p_level = dict_get d ''level'' (PStr ''info''),
           p_message = dict_get d ''msg'' (PStr ''''),
           p_error = dict_get d ''error'' (PStr ''''),
           p_caller = map_of d ''caller'', p_raw = strip line\<rparr>"
  using assms(1,2)
  by (simp add: parse_log_line_def Let_def
      load_fields_dict [of json_loads payload d, OF assms(3)])

text \<open>When the loop body returns, it is the composition of its five steps.\<close>

lemma classify_Inr:
  "classify line parsed a = Inr a' \<longleftrightarrow>
     (\<exists>lv m e. py_or (p_level parsed) (PStr ''info'') = PStr lv
        \<and> py_or (p_message parsed) (PStr '''') = PStr m
        \<and> py_or (p_error parsed) (PStr '''') = PStr e
        \<and> a' = find_health line m parsed (find_startup m parsed
                 (find_connection_errors m e parsed
                   (route_level (lower lv) (PStr m) (PStr e) parsed
                     (count_service parsed a)))))"
  by (auto simp: classify_def Let_def py_lower_def split: sum.splits pyval.splits)

lemma classify_eq:
  "classify line parsed a =
     (case py_or (p_level parsed) (PStr ''info'') of
        PStr lv \<Rightarrow>
          (case py_or (p_message parsed) (PStr '''') of
             PStr m \<Rightarrow>
               (case py_or (p_error parsed) (PStr '''') of
                  PStr e \<Rightarrow>
                    Inr (find_health line m parsed (find_startup m parsed
                          (find_connection_errors m e parsed
                            (route_level (lower lv) (PStr m) (PStr e) parsed
                              (count_service parsed a)))))
                | _ \<Rightarrow> Inl TypeError)
           | _ \<Rightarrow> Inl TypeError)
      | _ \<Rightarrow> Inl AttributeError)"
  by (simp add: classify_def Let_def py_lower_def split: pyval.splits)

lemma process_line_Inr:
  assumes "process_line json_loads line a = Inr a'"
  obtains parsed lv m e where
    "parse_log_line json_loads line = Inr parsed"
    "py_or (p_level parsed) (PStr ''info'') = PStr lv"
    "py_or (p_message parsed) (PStr '''') = PStr m"
    "py_or (p_error parsed) (PStr '''') = PStr e"
    "a' = find_health line m parsed (find_startup m parsed
            (find_connection_errors m e parsed
              (route_level (lower lv) (PStr m) (PStr e) parsed
                (count_service parsed a))))"
  using assms by (auto simp: process_line_def classify_Inr split: sum.splits)

lemma count_service_fields [simp]:
  "errors (count_service p a) = errors a"
  "warnings (count_service p a) = warnings a"
  "info (count_service p a) = info a"
  "fatal (count_service p a) = fatal a"
  "connection_errors (count_service p a) = connection_errors a"
  "startup_sequence (count_service p a) = startup_sequence a"
  "health_checks (count_service p a) = health_checks a"
  "service_status (count_service p a) = service_status a"
  by (simp_all add: count_service_def split: option.splits)

lemma route_level_fields [simp]:
  "services (route_level lv m e p a) = services a"
  "connection_errors (route_level lv m e p a) = connection_errors a"
  "startup_sequence (route_level lv m e p a) = startup_sequence a"
  "health_checks (route_level lv m e p a) = health_checks a"
  "service_status (route_level lv m e p a) = service_status a"
  by (simp_all add: route_level_def)

lemma find_connection_errors_fields [simp]:
  "services (find_connection_errors m e p a) = services a"
  "errors (find_connection_errors m e p a) = errors a"
  "warnings (find_connection_errors m e p a) = warnings a"
  "info (find_connection_errors m e p a) = info a"
  "fatal (find_connection_errors m e p a) = fatal a"
  "startup_sequence (find_connection_errors m e p a) = startup_sequence a"
  "health_checks (find_connection_errors m e p a) = health_checks a"
  "service_status (find_connection_errors m e p a) = service_status a"
  by (simp_all add: find_connection_errors_def Let_def)

lemma find_startup_fields [simp]:
  "services (find_startup m p a) = services a"
  "errors (find_startup m p a) = errors a"
  "warnings (find_startup m p a) = warnings a"
  "info (find_startup m p a) = info a"
  "fatal (find_startup m p a) = fatal a"
  "connection_errors (find_startup m p a) = connection_errors a"
  "health_checks (find_startup m p a) = health_checks a"
  "service_status (find_startup m p a) = service_status a"
  by (simp_all add: find_startup_def)

lemma find_health_fields [simp]:
  "services (find_health line m p a) = services a"
  "errors (find_health line m p a) = errors a"
  "warnings (find_health line m p a) = warnings a"
  "info (find_health line m p a) = info a"
  "fatal (find_health line m p a) = fatal a"
  "connection_errors (find_health line m p a) = connection_errors a"
  "startup_sequence (find_health line m p a) = startup_sequence a"
  "service_status (find_health line m p a) = service_status a"
  by (simp_all add: find_health_def)

lemma route_level_cases:
  "(\<exists>x. errors (route_level lv m e p a) = errors a @ [x])
     \<and> warnings (route_level lv m e p a) = warnings a
     \<and> fatal (route_level lv m e p a) = fatal a
     \<and> info (route_level lv m e p a) = info a
   \<or> errors (route_level lv m e p a) = errors a
     \<and> (\<exists>x. warnings (route_level lv m e p a) = warnings a @ [x])
     \<and> fatal (route_level lv m e p a) = fatal a
     \<and> info (route_level lv m e p a) = info a
   \<or> errors (route_level lv m e p a) = errors a
     \<and> warnings (route_level lv m e p a) = warnings a
     \<and> (\<exists>x. fatal (route_level lv m e p a) = fatal a @ [x])
     \<and> info (route_level lv m e p a) = info a
   \<or> errors (route_level lv m e p a) = errors a
     \<and> warnings (route_level lv m e p a) = warnings a
     \<and> fatal (route_level lv m e p a) = fatal a
     \<and> (\<exists>x. info (route_level lv m e p a) = info a @ [x])
   \<or> errors (route_level lv m e p a) = errors a
     \<and> warnings (route_level lv m e p a) = warnings a
     \<and> fatal (route_level lv m e p a) = fatal a
     \<and> info (route_level lv m e p a) = info a"
  by (simp add: route_level_def)

lemma steps_forget:
  "forget_line (find_health line2 m (p\<lparr>p_raw := r\<rparr>) (find_startup m (p\<lparr>p_raw := r\<rparr>)
      (find_connection_errors m e (p\<lparr>p_raw := r\<rparr>)
        (route_level lv mv ev (p\<lparr>p_raw := r\<rparr>) (count_service (p\<lparr>p_raw := r\<rparr>) a)))))
   = forget_line (find_health line1 m p (find_startup m p
      (find_connection_errors m e p
        (route_level lv mv ev p (count_service p a)))))"
  by (simp add: forget_line_def find_health_def find_startup_def find_connection_errors_def
      route_level_def count_service_def Let_def split: option.splits)

lemma classify_forget:
  "map_sum id forget_line (classify line2 (p\<lparr>p_raw := r\<rparr>) a)
   = map_sum id forget_line (classify line1 p a)"
  unfolding classify_eq by (simp add: steps_forget split: pyval.splits)

lemma sum_incr: "sum_list (map snd (incr k m)) = Suc (sum_list (map snd m))"
  by (induction k m rule: incr.induct) auto

lemma process_line_service_status:
  "process_line json_loads line a = Inr a' \<Longrightarrow> service_status a' = service_status a"
  by (auto simp: process_line_def classify_Inr split: sum.splits)

lemma run_lines_service_status:
  "run_lines json_loads logs a = Inr a' \<Longrightarrow> service_status a' = service_status a"
proof (induction logs arbitrary: a)
  case Nil
  then show ?case by simp
next
  case (Cons line rest)
  show ?case
  proof (cases "strip line = []")
    case True
    with Cons show ?thesis by simp
  next
    case False
    with Cons.prems obtain b where b: "process_line json_loads line a = Inr b"
      and r: "run_lines json_loads rest b = Inr a'"
      by (auto split: sum.splits)
    from Cons.IH [OF r] process_line_service_status [OF b] show ?thesis by simp
  qed
qed

lemma process_line_services:
  assumes "process_line json_loads line a = Inr a'"
  shows "sum_list (map snd (services a'))
         = sum_list (map snd (services a)) + (if re_match line = None then 0 else 1)"
    and "re_match line = None \<Longrightarrow> services a' = services a"
proof -
  from assms obtain parsed where p: "parse_log_line json_loads line = Inr parsed"
    and c: "classify line parsed a = Inr a'"
    by (auto simp: process_line_def split: sum.splits)
  from c have s: "services a' = services (count_service parsed a)"
    by (auto simp: classify_Inr)
  note sv = parse_log_line_service [OF p]
  show "re_match line = None \<Longrightarrow> services a' = services a"
    using s sv by (simp add: count_service_def)
  show "sum_list (map snd (services a'))
         = sum_list (map snd (services a)) + (if re_match line = None then 0 else 1)"
  proof (cases "re_match line")
    case None
    with s sv show ?thesis by (simp add: count_service_def)
  next
    case (Some sp)
    obtain svc pl where sp: "sp = (svc, pl)" by (cases sp)
    with Some re_match_service have "svc \<noteq> []" by blast
    with s sv Some sp show ?thesis by (simp add: count_service_def sum_incr)
  qed
qed

lemma run_lines_services:
  "run_lines json_loads logs a = Inr a' \<Longrightarrow>
     sum_list (map snd (services a'))
     = sum_list (map snd (services a))
       + length (filter (\<lambda>line. strip line \<noteq> [] \<and> re_match line \<noteq> None) logs)"
proof (induction logs arbitrary: a)
  case Nil
  then show ?case by simp
next
  case (Cons line rest)
  show ?case
  proof (cases "strip line = []")
    case True
    with Cons show ?thesis by simp
  next
    case False
    with Cons.prems obtain b where b: "process_line json_loads line a = Inr b"
      and r: "run_lines json_loads rest b = Inr a'"
      by (auto split: sum.splits)
    from Cons.IH [OF r] process_line_services(1) [OF b] False show ?thesis by simp
  qed
qed

lemma sample_run: "\<not> isl (analyze_logs sample_loads sample_logs)"
  by code_simp

text \<open>
  A run can end with an exception: a level that is a number other than zero has no
  \<open>lower\<close>. The facts about the aggregate are therefore stated for the runs that return
  one.
\<close>

lemma analyze_logs_can_raise:
  \<open>analyze_logs sample_loads [''svc | {"level":5}''] = Inl AttributeError\<close>
  by code_simp

section \<open>Facts about the seed generator\<close>

lemma for_range_rows:
  assumes step: "\<And>i g. P g \<Longrightarrow>
      \<exists>g' r. body i g = Inr g' \<and> P g' \<and> sql_rows g' = sql_rows g @ [r] \<and> Q r"
    and "P g"
  shows "\<exists>g' rs. for_range is body g = Inr g' \<and> P g' \<and> sql_rows g' = sql_rows g @ rs
           \<and> length rs = length is \<and> (\<forall>r \<in> set rs. Q r)"
  using assms(2)
proof (induction "is" arbitrary: g)
  case Nil
  then show ?case by simp
next
  case (Cons i rest)
  from step [OF Cons.prems, of i] obtain g1 r where
    1: "body i g = Inr g1" "P g1" "sql_rows g1 = sql_rows g @ [r]" "Q r"
    by blast
  from Cons.IH [OF 1(2)] obtain g' rs where
    2: "for_range rest body g1 = Inr g'" "P g'" "sql_rows g' = sql_rows g1 @ rs"
       "length rs = length rest" "\<forall>r \<in> set rs. Q r"
    by blast
  from 1 2 have "for_range (i # rest) body g = Inr g' \<and> P g'
      \<and> sql_rows g' = sql_rows g @ (r # rs) \<and> length (r # rs) = length (i # rest)
      \<and> (\<forall>x \<in> set (r # rs). Q x)"
    by simp
  then show ?case by blast
qed

lemma create_batch_step:
  assumes "map (\<lambda>r. hd (r_args r)) (sql_rows g) = batches g \<and> packages g = []"
  shows "\<exists>g' r. create_batch env i g = Inr g'
     \<and> (map (\<lambda>r. hd (r_args r)) (sql_rows g') = batches g' \<and> packages g' = [])
     \<and> sql_rows g' = sql_rows g @ [r] \<and> row_ok ''CreateBatch'' r"
  using assms
  by (simp add: create_batch_def generate_tx_id_def generate_block_hash_def uuid4_def
      randint_def get_timestamp_def add_row_def row_ok_def Let_def)

lemma create_package_step:
  assumes "batches g = B \<and> B \<noteq> [] \<and> length (packages g) + 5 = length (sql_rows g)"
  shows "\<exists>g' r. create_package env i g = Inr g'
     \<and> (batches g' = B \<and> B \<noteq> [] \<and> length (packages g') + 5 = length (sql_rows g'))
     \<and> sql_rows g' = sql_rows g @ [r]
     \<and> (row_ok ''CreatePackage'' r \<and> length (r_args r) = 4 \<and> r_args r ! 1 \<in> set B)"
  using assms
  by (simp add: create_package_def generate_tx_id_def generate_block_hash_def uuid4_def
      randint_def get_timestamp_def add_row_def row_ok_def choice_def Let_def)

lemma update_package_step:
  assumes "packages g \<noteq> []"
  shows "\<exists>g' r. update_package env i g = Inr g' \<and> packages g' \<noteq> []
     \<and> sql_rows g' = sql_rows g @ [r] \<and> row_ok ''UpdatePackage'' r"
  using assms
  by (simp add: update_package_def generate_tx_id_def generate_block_hash_def uuid4_def
      randint_def get_timestamp_def add_row_def row_ok_def choice_def Let_def)

lemma transfer_package_step:
  assumes "packages g \<noteq> []"
  shows "\<exists>g' r. transfer_package env i g = Inr g' \<and> packages g' \<noteq> []
     \<and> sql_rows g' = sql_rows g @ [r] \<and> row_ok ''TransferPackage'' r"
  using assms
  by (simp add: transfer_package_def generate_tx_id_def generate_block_hash_def uuid4_def
      randint_def get_timestamp_def add_row_def row_ok_def choice_def Let_def)

lemma map_const_replicate: "\<forall>x \<in> set xs. f x = c \<Longrightarrow> map f xs = replicate (length xs) c"
  by (induction xs) auto

text \<open>The texts: what \<open>join\<close>, \<open>str_nat\<close> and the template produce.\<close>

lemma join_Cons: "join sep (x # xs) = x @ concat (map (\<lambda>a. sep @ a) xs)"
  by (induction xs arbitrary: x) simp_all

lemma join_lines: "xs \<noteq> [] \<Longrightarrow> join sep xs @ sep = concat (map (\<lambda>s. s @ sep) xs)"
proof (induction sep xs rule: join.induct)
  case (1 sep)
  then show ?case by simp
next
  case (2 sep x)
  then show ?case by simp
next
  case (3 sep x y ys)
  then show ?case by simp
qed

lemma digit_char_digit:
  assumes "d < 10"
  shows "digit_char d \<in> set ''0123456789''" and "of_char (digit_char d) - 48 = d"
proof -
  from assms have "d = 0 \<or> d = 1 \<or> d = 2 \<or> d = 3 \<or> d = 4 \<or> d = 5
      \<or> d = 6 \<or> d = 7 \<or> d = 8 \<or> d = 9"
    by arith
  moreover have "digit_char 0 = CHR ''0''" "digit_char 1 = CHR ''1''"
    "digit_char 2 = CHR ''2''" "digit_char 3 = CHR ''3''" "digit_char 4 = CHR ''4''"
    "digit_char 5 = CHR ''5''" "digit_char 6 = CHR ''6''" "digit_char 7 = CHR ''7''"
    "digit_char 8 = CHR ''8''" "digit_char 9 = CHR ''9''"
    by code_simp+
  ultimately show "digit_char d \<in> set ''0123456789''"
    by (elim disjE) simp_all
  show "of_char (digit_char d) - 48 = d"
    using assms by (simp add: digit_char_def)
qed

lemma str_nat_text:
  "str_nat n \<noteq> [] \<and> set (str_nat n) \<subseteq> set ''0123456789''
   \<and> foldl (\<lambda>v c. 10 * v + (of_char c - 48)) 0 (str_nat n) = n"
proof (induction n rule: str_nat.induct)
  case (1 n)
  show ?case
  proof (cases "n < 10")
    case True
    with digit_char_digit [of n] show ?thesis by (subst (1 2 3) str_nat.simps) simp
  next
    case False
    with 1 digit_char_digit [of "n mod 10"] show ?thesis
      by (subst (1 2 3) str_nat.simps) (simp del: str_nat.simps)
  qed
qed

lemma str_int_text:
  assumes "0 \<le> i"
  shows "str_int i \<noteq> [] \<and> set (str_int i) \<subseteq> set ''0123456789''
   \<and> int (foldl (\<lambda>v c. 10 * v + (of_char c - 48)) 0 (str_int i)) = i"
  using assms str_nat_text [of "nat i"] by (simp add: str_int_def)

lemma args_text_eq:
  "args \<noteq> [] \<Longrightarrow>
     args_text args =
       ''['' @ [CHR 0x22] @ hd args @ [CHR 0x22]
       @ concat (map (\<lambda>a. '', '' @ [CHR 0x22] @ a @ [CHR 0x22]) (tl args)) @ '']''"
  by (cases args) (simp_all add: args_text_def join_Cons dquote_def comp_def)

lemma sql_of_text:
  assumes "row_ok fn r"
  shows "sql_of r =
     ''INSERT INTO transactions (id, tx_id, channel_name, chaincode_name, function_name, args, status, block_number, block_hash, timestamp) ''
     @ [CHR 0x0A] @ ''    VALUES (gen_random_uuid(), ''
     @ [CHR 0x27] @ r_tx_id r @ [CHR 0x27] @ '', ''
     @ [CHR 0x27] @ ''ibnchannel'' @ [CHR 0x27] @ '', ''
     @ [CHR 0x27] @ ''teatrace'' @ [CHR 0x27] @ '', ''
     @ [CHR 0x27] @ fn @ [CHR 0x27] @ '', ''
     @ [CHR 0x27] @ ''['' @ [CHR 0x22] @ hd (r_args r) @ [CHR 0x22]
       @ concat (map (\<lambda>a. '', '' @ [CHR 0x22] @ a @ [CHR 0x22]) (tl (r_args r))) @ '']''
       @ [CHR 0x27] @ '', ''
     @ [CHR 0x27] @ ''VALID'' @ [CHR 0x27] @ '', ''
     @ str_int (r_block_number r) @ '', ''
     @ [CHR 0x27] @ r_block_hash r @ [CHR 0x27] @ '', ''
     @ [CHR 0x27] @ r_timestamp r @ [CHR 0x27] @ '');''"
  using assms by (simp add: sql_of_def row_ok_def squote_def args_text_eq)

section \<open>The claims\<close>

text \<open>
  C1, as amended. Take a line that is not blank and whose parsed level, message and error
  are each a string or a false value (a false level counts as \<open>info\<close>, a false message
  or error as the empty string). When the message and the error, joined by a space and
  put in lower case, contain \<open>connection refused\<close>, the loop of \<open>analyze_logs\<close> does
  not skip the line, its body returns, and it appends one entry for the line to
  \<open>connection_errors\<close>, whatever the level is.
\<close>

theorem connection_refused_recorded:
  assumes "strip line \<noteq> []"
    and "parse_log_line json_loads line = Inr parsed"
    and "py_or (p_level parsed) (PStr ''info'') = PStr lv"
    and "py_or (p_message parsed) (PStr '''') = PStr m"
    and "py_or (p_error parsed) (PStr '''') = PStr e"
    and "str_in ''connection refused'' (lower (m @ '' '' @ e))"
  shows "\<exists>a'. run_lines json_loads (line # rest) a = run_lines json_loads rest a'
          \<and> process_line json_loads line a = Inr a'
          \<and> connection_errors a' = connection_errors a @
               [\<lparr>ce_service = p_service parsed, ce_message = m, ce_error = e,
                 ce_raw = strip line\<rparr>]"
proof -
  let ?a = "find_health line m parsed (find_startup m parsed
              (find_connection_errors m e parsed
                (route_level (lower lv) (PStr m) (PStr e) parsed
                  (count_service parsed a))))"
  have p: "process_line json_loads line a = Inr ?a"
    using assms(2-5) by (simp add: process_line_def classify_eq)
  with assms(1) have r: "run_lines json_loads (line # rest) a = run_lines json_loads rest ?a"
    by simp
  from assms(6) have "is_connection_error (lower (m @ '' '' @ e))"
    by (simp add: is_connection_error_def)
  then have "connection_errors ?a = connection_errors a @
               [\<lparr>ce_service = p_service parsed, ce_message = m, ce_error = e,
                 ce_raw = strip line\<rparr>]"
    using parse_log_line_raw [OF assms(2)]
    by (simp add: find_connection_errors_def Let_def)
  with p r show ?thesis by blast
qed

theorem connection_refused_recorded_witness:
  "strip fatal_line \<noteq> []
   \<and> py_or (p_level (projr (parse_log_line sample_loads fatal_line))) (PStr ''info'')
       = PStr ''fatal''
   \<and> str_in ''connection refused''
        (lower (''Failed to connect to database'' @ '' '' @ ''dial error (connection refused)''))
   \<and> (\<exists>a'. analyze_logs sample_loads [fatal_line] = Inr a'
         \<and> connection_errors a' =
             [\<lparr>ce_service = Some ''api'', ce_message = ''Failed to connect to database'',
               ce_error = ''dial error (connection refused)'', ce_raw = fatal_line\<rparr>])"
proof -
  let ?p = "projr (parse_log_line sample_loads fatal_line)"
  have "\<not> isl (parse_log_line sample_loads fatal_line)" by code_simp
  then have p: "parse_log_line sample_loads fatal_line = Inr ?p" by simp
  have l: "py_or (p_level ?p) (PStr ''info'') = PStr ''fatal''" by code_simp
  have m: "py_or (p_message ?p) (PStr '''') = PStr ''Failed to connect to database''"
    by code_simp
  have e: "py_or (p_error ?p) (PStr '''') = PStr ''dial error (connection refused)''"
    by code_simp
  have s: "str_in ''connection refused''
        (lower (''Failed to connect to database'' @ '' '' @ ''dial error (connection refused)''))"
    by code_simp
  have sv: "p_service ?p = Some ''api''" by code_simp
  have st: "strip fatal_line = fatal_line" by code_simp
  have nb: "strip fatal_line \<noteq> []" by code_simp
  from connection_refused_recorded [OF nb p l m e s, of "[]" "empty_analysis :: int analysis"]
    l s sv st nb
  show ?thesis by (auto simp: empty_analysis_def analyze_logs_def)
qed

text \<open>
  The claim as it was written fails on a line that does not match the pattern: the line
  \<open>connection refused\<close> is not blank and contains the words, and it is parsed with no
  message and no error, so nothing is appended to \<open>connection_errors\<close>.
\<close>

theorem connection_refused_counterexample:
  "strip ''connection refused'' \<noteq> []
   \<and> str_in ''connection refused'' (lower ''connection refused'')
   \<and> \<not> isl (analyze_logs sample_loads [''connection refused''])
   \<and> connection_errors (projr (analyze_logs sample_loads [''connection refused''])) = []"
  by code_simp

text \<open>
  C2. The loop body appends the entry of a line to at most one of the four level
  buckets. Whether it also appends one to \<open>connection_errors\<close>, to \<open>startup_sequence\<close>
  and to \<open>health_checks\<close> is decided for each of the three by its own test on the
  message and the error; none of the tests looks at the level.
\<close>

theorem level_buckets_exclusive:
  assumes "process_line json_loads line a = Inr a'"
  shows "((\<exists>x. errors a' = errors a @ [x]) \<and> warnings a' = warnings a
            \<and> fatal a' = fatal a \<and> info a' = info a
          \<or> errors a' = errors a \<and> (\<exists>x. warnings a' = warnings a @ [x])
            \<and> fatal a' = fatal a \<and> info a' = info a
          \<or> errors a' = errors a \<and> warnings a' = warnings a
            \<and> (\<exists>x. fatal a' = fatal a @ [x]) \<and> info a' = info a
          \<or> errors a' = errors a \<and> warnings a' = warnings a
            \<and> fatal a' = fatal a \<and> (\<exists>x. info a' = info a @ [x])
          \<or> errors a' = errors a \<and> warnings a' = warnings a
            \<and> fatal a' = fatal a \<and> info a' = info a)
    \<and> (\<exists>parsed m e.
          parse_log_line json_loads line = Inr parsed
          \<and> py_or (p_message parsed) (PStr '''') = PStr m
          \<and> py_or (p_error parsed) (PStr '''') = PStr e
          \<and> connection_errors a' = connection_errors a @
                (if is_connection_error (lower (m @ '' '' @ e))
                 then [\<lparr>ce_service = p_service parsed, ce_message = m, ce_error = e,
                        ce_raw = p_raw parsed\<rparr>]
                 else [])
          \<and> startup_sequence a' = startup_sequence a @
                (if is_startup m
                 then [\<lparr>su_service = p_service parsed, su_message = m,
                        su_timestamp = p_timestamp parsed\<rparr>]
                 else [])
          \<and> health_checks a' = health_checks a @
                (if is_health m
                 then [\<lparr>hc_service = p_service parsed, hc_message = m,
                        hc_status = health_status line\<rparr>]
                 else []))"
proof -
  from assms obtain parsed lv m e where
    p: "parse_log_line json_loads line = Inr parsed"
    and m: "py_or (p_message parsed) (PStr '''') = PStr m"
    and e: "py_or (p_error parsed) (PStr '''') = PStr e"
    and a': "a' = find_health line m parsed (find_startup m parsed
            (find_connection_errors m e parsed
              (route_level (lower lv) (PStr m) (PStr e) parsed
                (count_service parsed a))))"
    by (rule process_line_Inr)
  have lv: "errors a' = errors (route_level (lower lv) (PStr m) (PStr e) parsed (count_service parsed a))"
    "warnings a' = warnings (route_level (lower lv) (PStr m) (PStr e) parsed (count_service parsed a))"
    "fatal a' = fatal (route_level (lower lv) (PStr m) (PStr e) parsed (count_service parsed a))"
    "info a' = info (route_level (lower lv) (PStr m) (PStr e) parsed (count_service parsed a))"
    unfolding a' by simp_all
  from route_level_cases [of "lower lv" "PStr m" "PStr e" parsed "count_service parsed a"]
  have 1: "(\<exists>x. errors a' = errors a @ [x]) \<and> warnings a' = warnings a
            \<and> fatal a' = fatal a \<and> info a' = info a
          \<or> errors a' = errors a \<and> (\<exists>x. warnings a' = warnings a @ [x])
            \<and> fatal a' = fatal a \<and> info a' = info a
          \<or> errors a' = errors a \<and> warnings a' = warnings a
            \<and> (\<exists>x. fatal a' = fatal a @ [x]) \<and> info a' = info a
          \<or> errors a' = errors a \<and> warnings a' = warnings a
            \<and> fatal a' = fatal a \<and> (\<exists>x. info a' = info a @ [x])
          \<or> errors a' = errors a \<and> warnings a' = warnings a
            \<and> fatal a' = fatal a \<and> info a' = info a"
    unfolding lv by simp
  have c: "connection_errors a' = connection_errors a @
                (if is_connection_error (lower (m @ '' '' @ e))
                 then [\<lparr>ce_service = p_service parsed, ce_message = m, ce_error = e,
                        ce_raw = p_raw parsed\<rparr>]
                 else [])"
    unfolding a' by (simp add: find_connection_errors_def Let_def)
  have s: "startup_sequence a' = startup_sequence a @
                (if is_startup m
                 then [\<lparr>su_service = p_service parsed, su_message = m,
                        su_timestamp = p_timestamp parsed\<rparr>]
                 else [])"
    unfolding a' by (simp add: find_startup_def)
  have h: "health_checks a' = health_checks a @
                (if is_health m
                 then [\<lparr>hc_service = p_service parsed, hc_message = m,
                        hc_status = health_status line\<rparr>]
                 else [])"
    unfolding a' by (simp add: find_health_def)
  from 1 p m e c s h show ?thesis by blast
qed

theorem level_buckets_exclusive_witness:
  "\<not> isl (process_line sample_loads fatal_line (empty_analysis :: int analysis))
   \<and> length (fatal (projr (process_line sample_loads fatal_line
        (empty_analysis :: int analysis)))) = 1
   \<and> errors (projr (process_line sample_loads fatal_line (empty_analysis :: int analysis))) = []
   \<and> warnings (projr (process_line sample_loads fatal_line (empty_analysis :: int analysis))) = []
   \<and> info (projr (process_line sample_loads fatal_line (empty_analysis :: int analysis))) = []
   \<and> length (connection_errors (projr (process_line sample_loads fatal_line
        (empty_analysis :: int analysis)))) = 1"
proof -
  let ?a = "projr (process_line sample_loads fatal_line (empty_analysis :: int analysis))"
  have i: "\<not> isl (process_line sample_loads fatal_line (empty_analysis :: int analysis))"
    by code_simp
  then have a: "process_line sample_loads fatal_line empty_analysis = Inr ?a" by simp
  have f: "length (fatal ?a) = 1" by code_simp
  have c: "length (connection_errors ?a) = 1" by code_simp
  from level_buckets_exclusive [OF a] f i c
  show ?thesis by (auto simp: empty_analysis_def)
qed

text \<open>
  C3. A line made of a service token, a pipe with white space on both sides and a JSON
  document that decodes to a dictionary with level \<open>error\<close>, message \<open>m\<close> and error
  \<open>e\<close> is not skipped by the loop of \<open>analyze_logs\<close>, and the loop body appends
  exactly one entry to \<open>errors\<close> for it, with that service, message and error, and
  none to the other level buckets.
\<close>

theorem error_line_in_errors:
  assumes svc: "svc \<noteq> []" "\<forall>c \<in> set svc. \<not> isspace c"
    and w1: "w1 \<noteq> []" "\<forall>c \<in> set w1. isspace c"
    and w2: "w2 \<noteq> []" "\<forall>c \<in> set w2. isspace c"
    and payload: "startswith payload ''{''" "CHR 0x0A \<notin> set payload"
    and dec: "json_loads payload = Inr (PDict d)"
    and level: "map_of d ''level'' = Some (PStr ''error'')"
    and msg: "map_of d ''msg'' = Some (PStr m)"
    and err: "map_of d ''error'' = Some (PStr e)"
    and line: "line = svc @ w1 @ ''|'' @ w2 @ payload"
  shows "\<exists>a'. run_lines json_loads (line # rest) a = run_lines json_loads rest a'
          \<and> process_line json_loads line a = Inr a'
          \<and> errors a' = errors a @
               [\<lparr>ee_service = Some svc, ee_message = PStr m, ee_error = PStr e,
                 ee_caller = (case map_of d ''caller'' of Some c \<Rightarrow> c | None \<Rightarrow> PStr ''''),
                 ee_raw = strip line\<rparr>]
          \<and> warnings a' = warnings a \<and> fatal a' = fatal a \<and> info a' = info a"
proof -
  from payload(1) obtain t where t: "payload = CHR ''{'' # t"
    by (auto simp: startswith_brace)
  have p: "payload \<noteq> []" "\<not> isspace (hd payload)"
    using t by (simp_all add: isspace_def)
  have rm: "re_match line = Some (svc, payload)"
    unfolding line by (rule re_match_form [OF svc w1 w2 p payload(2)])
  have nb: "strip line \<noteq> []"
    using svc by (intro strip_nonblank) (auto simp: line hd_append)
  have le: "lower ''error'' = ''error''" by code_simp
  have parse: "parse_log_line json_loads line =
      Inr \<lparr>p_service = Some svc, p_timestamp = dict_get d ''ts'' (PNum 0),
           p_level = PStr ''error'', p_message = PStr m, p_error = PStr e,
           p_caller = map_of d ''caller'', p_raw = strip line\<rparr>"
    using rm payload(1) level msg err
    by (simp add: parse_log_line_def Let_def dict_get_def
        load_fields_dict [of json_loads payload d, OF dec])
  have "\<exists>a'. process_line json_loads line a = Inr a'
          \<and> errors a' = errors a @
               [\<lparr>ee_service = Some svc, ee_message = PStr m, ee_error = PStr e,
                 ee_caller = (case map_of d ''caller'' of Some c \<Rightarrow> c | None \<Rightarrow> PStr ''''),
                 ee_raw = strip line\<rparr>]
          \<and> warnings a' = warnings a \<and> fatal a' = fatal a \<and> info a' = info a"
    unfolding process_line_def parse
    by (simp add: classify_Inr py_or_def le route_level_def)
  then obtain a' where a': "process_line json_loads line a = Inr a'"
    "errors a' = errors a @
               [\<lparr>ee_service = Some svc, ee_message = PStr m, ee_error = PStr e,
                 ee_caller = (case map_of d ''caller'' of Some c \<Rightarrow> c | None \<Rightarrow> PStr ''''),
                 ee_raw = strip line\<rparr>]"
    "warnings a' = warnings a" "fatal a' = fatal a" "info a' = info a"
    by blast
  from nb a'(1) have "run_lines json_loads (line # rest) a = run_lines json_loads rest a'"
    by simp
  with a' show ?thesis by blast
qed

theorem error_line_in_errors_witness:
  \<open>\<exists>a'. analyze_logs sample_loads [''svc | {"level":"error","msg":"m","error":"e"}''] = Inr a'
          \<and> errors a' =
               [\<lparr>ee_service = Some ''svc'', ee_message = PStr ''m'', ee_error = PStr ''e'',
                 ee_caller = PStr '''',
                 ee_raw = ''svc | {"level":"error","msg":"m","error":"e"}''\<rparr>]
          \<and> warnings a' = [] \<and> fatal a' = [] \<and> info a' = []\<close>
proof -
  have s: \<open>strip ''svc | {"level":"error","msg":"m","error":"e"}''
        = ''svc | {"level":"error","msg":"m","error":"e"}''\<close> by code_simp
  have d: \<open>sample_loads ''{"level":"error","msg":"m","error":"e"}''
        = Inr (PDict [(''level'', PStr ''error''), (''msg'', PStr ''m''), (''error'', PStr ''e'')])\<close>
    by (simp add: sample_loads_def)
  have sp: "\<forall>c \<in> set '' ''. isspace c" "\<forall>c \<in> set ''svc''. \<not> isspace c"
    by (simp_all add: isspace_def)
  from error_line_in_errors [of "''svc''" "'' ''" "'' ''"
      \<open>''{"level":"error","msg":"m","error":"e"}''\<close> sample_loads
      "[(''level'', PStr ''error''), (''msg'', PStr ''m''), (''error'', PStr ''e'')]"
      "''m''" "''e''" \<open>''svc | {"level":"error","msg":"m","error":"e"}''\<close>
      "[]" "empty_analysis :: int analysis"] d sp s
  show ?thesis by (auto simp: empty_analysis_def analyze_logs_def)
qed

text \<open>
  C4, as amended. For a connection error the renderer prints the label of the Fabric peer
  exactly when the raw line contains \<open>7051\<close>, and the label of PostgreSQL exactly when
  it contains \<open>5432\<close> and not \<open>7051\<close>. It prints the label of the API gateway when
  the raw line contains \<open>8080\<close> and \<open>172.21.0.\<close> and neither \<open>7051\<close> nor \<open>5432\<close>,
  and only when it contains \<open>8080\<close> and neither \<open>7051\<close> nor \<open>5432\<close>.
\<close>

theorem connection_label_rule:
  "(LabelFabricPeer7051 \<in> set (print_conn_err i conn_err)
      \<longleftrightarrow> str_in ''7051'' (ce_raw conn_err))
   \<and> (LabelPostgreSQL5432 \<in> set (print_conn_err i conn_err)
      \<longleftrightarrow> str_in ''5432'' (ce_raw conn_err) \<and> \<not> str_in ''7051'' (ce_raw conn_err))
   \<and> (str_in ''8080'' (ce_raw conn_err) \<and> str_in ''172.21.0.'' (ce_raw conn_err)
        \<and> \<not> str_in ''7051'' (ce_raw conn_err) \<and> \<not> str_in ''5432'' (ce_raw conn_err)
      \<longrightarrow> LabelApiGateway8080 \<in> set (print_conn_err i conn_err))
   \<and> (LabelApiGateway8080 \<in> set (print_conn_err i conn_err)
      \<longrightarrow> str_in ''8080'' (ce_raw conn_err)
        \<and> \<not> str_in ''7051'' (ce_raw conn_err) \<and> \<not> str_in ''5432'' (ce_raw conn_err))"
  by (auto simp: print_conn_err_def connection_label_def)

theorem connection_label_rule_witness:
  "connection_errors (projr (analyze_logs sample_loads [ce_raw nginx_entry])) = [nginx_entry]
   \<and> str_in ''8080'' (ce_raw nginx_entry) \<and> str_in ''172.21.0.'' (ce_raw nginx_entry)
   \<and> \<not> str_in ''7051'' (ce_raw nginx_entry) \<and> \<not> str_in ''5432'' (ce_raw nginx_entry)
   \<and> LabelApiGateway8080 \<in> set (print_conn_err 1 nginx_entry)
   \<and> LabelFabricPeer7051 \<notin> set (print_conn_err 1 nginx_entry)
   \<and> LabelPostgreSQL5432 \<notin> set (print_conn_err 1 nginx_entry)"
proof -
  have "connection_errors (projr (analyze_logs sample_loads [ce_raw nginx_entry]))
      = [nginx_entry]"
    by code_simp
  moreover have "str_in ''8080'' (ce_raw nginx_entry)"
    "str_in ''172.21.0.'' (ce_raw nginx_entry)"
    "\<not> str_in ''7051'' (ce_raw nginx_entry)" "\<not> str_in ''5432'' (ce_raw nginx_entry)"
    by code_simp+
  ultimately show ?thesis
    using connection_label_rule [of 1 nginx_entry] by simp
qed

text \<open>
  The claim as it was written fails on a connection error whose raw line contains both
  \<open>8080\<close> and \<open>7051\<close>: the label of the Fabric peer is printed and that of the API
  gateway is not.
\<close>

theorem connection_label_counterexample:
  "str_in ''8080'' gateway_line
   \<and> map ce_raw (connection_errors (projr (analyze_logs sample_loads [gateway_line])))
       = [gateway_line]
   \<and> print_connection_errors (projr (analyze_logs sample_loads [gateway_line]))
       = [ConnHeader 1 (Some ''gw''),
          ConnMessage ''dial error 172.21.0.26:7051 via proxy :8080'',
          LabelFabricPeer7051]"
  by code_simp

text \<open>
  C5. \<open>parse_log_line\<close> returns a record on every line, whatever the decoder does; and
  when the payload starts with a brace and the decoder raises or returns something that
  is no dictionary, the record has the whole payload as its message and no level.
\<close>

theorem parse_log_line_never_raises:
  "(\<exists>parsed. parse_log_line json_loads line = Inr parsed)
   \<and> (re_match line = Some (service, log_content) \<longrightarrow> startswith log_content ''{'' \<longrightarrow>
        (\<forall>d. json_loads log_content \<noteq> Inr (PDict d)) \<longrightarrow>
        parse_log_line json_loads line =
          Inr \<lparr>p_service = Some service, p_timestamp = PNone, p_level = PNone,
               p_message = PStr log_content, p_error = PNone, p_caller = None,
               p_raw = strip line\<rparr>)"
proof (intro conjI impI)
  show "\<exists>parsed. parse_log_line json_loads line = Inr parsed"
    by (simp add: parse_log_line_def Let_def split: option.splits sum.splits)
next
  assume m: "re_match line = Some (service, log_content)"
    and b: "startswith log_content ''{''"
    and d: "\<forall>d. json_loads log_content \<noteq> Inr (PDict d)"
  from load_fields_no_dict [of json_loads log_content, OF d]
  obtain e where "load_fields json_loads log_content
      \<lparr>p_service = Some service, p_timestamp = PNone, p_level = PNone,
       p_message = PNone, p_error = PNone, p_caller = None, p_raw = strip line\<rparr> = Inl e"
    by blast
  with m b
  show "parse_log_line json_loads line =
          Inr \<lparr>p_service = Some service, p_timestamp = PNone, p_level = PNone,
               p_message = PStr log_content, p_error = PNone, p_caller = None,
               p_raw = strip line\<rparr>"
    by (simp add: parse_log_line_def Let_def)
qed

theorem parse_log_line_never_raises_witness:
  "re_match ''x | {not json'' = Some (''x'', ''{not json'')
   \<and> startswith ''{not json'' ''{''
   \<and> (\<forall>d. sample_loads ''{not json'' \<noteq> Inr (PDict d))
   \<and> parse_log_line sample_loads ''x | {not json'' =
          Inr \<lparr>p_service = Some ''x'', p_timestamp = PNone, p_level = PNone,
               p_message = PStr ''{not json'', p_error = PNone, p_caller = None,
               p_raw = ''x | {not json''\<rparr>"
proof -
  have m: "re_match ''x | {not json'' = Some (''x'', ''{not json'')" by code_simp
  have b: "startswith ''{not json'' ''{''" by simp
  have d: "\<forall>d. sample_loads ''{not json'' \<noteq> Inr (PDict d)"
    by (simp add: sample_loads_def)
  have s: "strip ''x | {not json'' = ''x | {not json''" by code_simp
  from parse_log_line_never_raises [of sample_loads "''x | {not json''" "''x''" "''{not json''"]
    m b d s
  show ?thesis by simp
qed

text \<open>
  C6. The counts of the service map add up to the number of lines that are not blank
  and match the pattern; a match has a service token that is not empty; and a line that
  does not match leaves the service map as it was.
\<close>

theorem service_counts_sum:
  "(analyze_logs json_loads logs = Inr a \<longrightarrow>
      sum_list (map snd (services a))
      = length (filter (\<lambda>line. strip line \<noteq> [] \<and> re_match line \<noteq> None) logs))
   \<and> (re_match line1 = Some (service, log_content) \<longrightarrow> service \<noteq> [])
   \<and> (re_match line2 = None \<longrightarrow> process_line json_loads line2 b = Inr b' \<longrightarrow>
        services b' = services b)"
proof (intro conjI impI)
  assume h: "analyze_logs json_loads logs = Inr a"
  from run_lines_services [OF h [unfolded analyze_logs_def]]
  show "sum_list (map snd (services a))
      = length (filter (\<lambda>line. strip line \<noteq> [] \<and> re_match line \<noteq> None) logs)"
    by (simp add: empty_analysis_def)
next
  assume "re_match line1 = Some (service, log_content)"
  then show "service \<noteq> []" using re_match_service by blast
next
  assume "re_match line2 = None" and "process_line json_loads line2 b = Inr b'"
  then show "services b' = services b" by (rule process_line_services(2) [rotated])
qed

theorem service_counts_sum_witness:
  "sum_list (map snd (services (projr (analyze_logs sample_loads sample_logs)))) = 5
   \<and> length (filter (\<lambda>line. strip line \<noteq> [] \<and> re_match line \<noteq> None) sample_logs) = 5
   \<and> re_match ''web | up'' = Some (''web'', ''up'')
   \<and> re_match ''connection refused'' = None
   \<and> services (projr (process_line sample_loads ''connection refused'' empty_analysis)) = []"
proof -
  from sample_run obtain a where a: "analyze_logs sample_loads sample_logs = Inr a"
    by (cases "analyze_logs sample_loads sample_logs") auto
  have n: "length (filter (\<lambda>line. strip line \<noteq> [] \<and> re_match line \<noteq> None) sample_logs) = 5"
    by code_simp
  have m: "re_match ''web | up'' = Some (''web'', ''up'')" by code_simp
  have u: "re_match ''connection refused'' = None" by code_simp
  have "\<not> isl (process_line sample_loads ''connection refused'' (empty_analysis :: int analysis))"
    by code_simp
  then obtain b' :: "int analysis"
    where b: "process_line sample_loads ''connection refused'' empty_analysis = Inr b'"
    by (cases "process_line sample_loads ''connection refused'' (empty_analysis :: int analysis)") auto
  from service_counts_sum [of sample_loads sample_logs a "''web | up''" "''web''" "''up''"
      "''connection refused''" empty_analysis b'] a n m u b
  show ?thesis by (simp add: empty_analysis_def)
qed

text \<open>
  C8, as amended. Two lines with the same service token whose payloads decode to
  dictionaries that agree on \<open>level\<close>, \<open>msg\<close>, \<open>ts\<close>, \<open>error\<close> and \<open>caller\<close> are
  classified alike in everything but what is read off the whole line: the \<open>raw\<close> text
  kept in the entries and the \<open>status\<close> of a health check.
\<close>

theorem other_fields_ignored:
  assumes "re_match line1 = Some (service, payload1)"
    and "re_match line2 = Some (service, payload2)"
    and "startswith payload1 ''{''" and "startswith payload2 ''{''"
    and "json_loads payload1 = Inr (PDict d1)"
    and "json_loads payload2 = Inr (PDict d2)"
    and "\<forall>k \<in> set [''level'', ''msg'', ''ts'', ''error'', ''caller'']. map_of d1 k = map_of d2 k"
  shows "map_sum id forget_line (process_line json_loads line1 a)
       = map_sum id forget_line (process_line json_loads line2 a)"
proof -
  let ?p = "\<lparr>p_service = Some service, p_timestamp = dict_get d1 ''ts'' (PNum 0),
           p_level = dict_get d1 ''level'' (PStr ''info''),
           p_message = dict_get d1 ''msg'' (PStr ''''),
           p_error = dict_get d1 ''error'' (PStr ''''),
           p_caller = map_of d1 ''caller'', p_raw = strip line1\<rparr>"
  have 1: "parse_log_line json_loads line1 = Inr ?p"
    by (rule parse_json_line [where json_loads = json_loads, OF assms(1,3,5)])
  have "parse_log_line json_loads line2 =
      Inr \<lparr>p_service = Some service, p_timestamp = dict_get d2 ''ts'' (PNum 0),
           p_level = dict_get d2 ''level'' (PStr ''info''),
           p_message = dict_get d2 ''msg'' (PStr ''''),
           p_error = dict_get d2 ''error'' (PStr ''''),
           p_caller = map_of d2 ''caller'', p_raw = strip line2\<rparr>"
    by (rule parse_json_line [where json_loads = json_loads, OF assms(2,4,6)])
  with assms(7) have 2: "parse_log_line json_loads line2 = Inr (?p\<lparr>p_raw := strip line2\<rparr>)"
    by (simp add: dict_get_def)
  have "map_sum id forget_line (classify line2 (?p\<lparr>p_raw := strip line2\<rparr>) a)
      = map_sum id forget_line (classify line1 ?p a)"
    by (rule classify_forget)
  then show ?thesis
    unfolding process_line_def 1 2 by simp
qed

theorem other_fields_ignored_witness:
  "map_sum id forget_line (process_line sample_loads health_line_200 (empty_analysis :: int analysis))
   = map_sum id forget_line (process_line sample_loads health_line_500 empty_analysis)
   \<and> \<not> isl (process_line sample_loads health_line_200 (empty_analysis :: int analysis))"
proof -
  have m1: \<open>re_match health_line_200 = Some (''api'', ''{"level":"info","msg":"GET /health","status":200}'')\<close>
    by code_simp
  have m2: \<open>re_match health_line_500 = Some (''api'', ''{"level":"info","msg":"GET /health","status":500}'')\<close>
    by code_simp
  have s1: \<open>startswith ''{"level":"info","msg":"GET /health","status":200}'' ''{''\<close> by simp
  have s2: \<open>startswith ''{"level":"info","msg":"GET /health","status":500}'' ''{''\<close> by simp
  have d1: \<open>sample_loads ''{"level":"info","msg":"GET /health","status":200}'' =
     Inr (PDict [(''level'', PStr ''info''), (''msg'', PStr ''GET /health''),
                 (''status'', PNum 200)])\<close>
    by (simp add: sample_loads_def)
  have d2: \<open>sample_loads ''{"level":"info","msg":"GET /health","status":500}'' =
     Inr (PDict [(''level'', PStr ''info''), (''msg'', PStr ''GET /health''),
                 (''status'', PNum 500)])\<close>
    by (simp add: sample_loads_def)
  have k: "\<forall>k \<in> set [''level'', ''msg'', ''ts'', ''error'', ''caller''].
      map_of [(''level'', PStr ''info''), (''msg'', PStr ''GET /health''),
                 (''status'', PNum (200::int))] k
      = map_of [(''level'', PStr ''info''), (''msg'', PStr ''GET /health''),
                 (''status'', PNum 500)] k"
    by simp
  have i: "\<not> isl (process_line sample_loads health_line_200 (empty_analysis :: int analysis))"
    by code_simp
  from other_fields_ignored [where json_loads = sample_loads, OF m1 m2 s1 s2 d1 d2 k] i
  show ?thesis by simp
qed

text \<open>
  The claim as it was written fails: these two lines differ in the field \<open>status\<close>
  only, and the health check of the first has status \<open>200\<close>, that of the second
  \<open>unknown\<close>.
\<close>

theorem other_fields_counterexample:
  \<open>sample_loads ''{"level":"info","msg":"GET /health","status":200}'' =
     Inr (PDict [(''level'', PStr ''info''), (''msg'', PStr ''GET /health''),
                 (''status'', PNum 200)])
   \<and> sample_loads ''{"level":"info","msg":"GET /health","status":500}'' =
     Inr (PDict [(''level'', PStr ''info''), (''msg'', PStr ''GET /health''),
                 (''status'', PNum 500)])
   \<and> health_checks (projr (process_line sample_loads health_line_200
        (empty_analysis :: int analysis))) =
       [\<lparr>hc_service = Some ''api'', hc_message = ''GET /health'', hc_status = ''200''\<rparr>]
   \<and> health_checks (projr (process_line sample_loads health_line_500
        (empty_analysis :: int analysis))) =
       [\<lparr>hc_service = Some ''api'', hc_message = ''GET /health'', hc_status = ''unknown''\<rparr>]
   \<and> process_line sample_loads health_line_200 (empty_analysis :: int analysis)
       \<noteq> process_line sample_loads health_line_500 empty_analysis\<close>
  by code_simp

text \<open>
  C9. The \<open>service_status\<close> map of the aggregate that \<open>analyze_logs\<close> returns is
  empty: it starts empty and no step of the loop writes to it.
\<close>

theorem service_status_empty:
  "analyze_logs json_loads logs = Inr a \<Longrightarrow> service_status a = []"
  unfolding analyze_logs_def
  by (drule run_lines_service_status) (simp add: empty_analysis_def)

theorem service_status_empty_witness:
  "\<not> isl (analyze_logs sample_loads sample_logs)
   \<and> service_status (projr (analyze_logs sample_loads sample_logs)) = []"
proof -
  from sample_run obtain a where a: "analyze_logs sample_loads sample_logs = Inr a"
    by (cases "analyze_logs sample_loads sample_logs") auto
  from service_status_empty [OF a] a show ?thesis by simp
qed

text \<open>
  C10. Whatever the UUIDs, the random numbers and the clock are, the script ends without
  an exception and prints 28 statements separated by newlines, each an INSERT into the
  table transactions with channel ibnchannel, chaincode teatrace and status VALID
  written in it: 5 with function CreateBatch, then 10 with CreatePackage, 8 with
  UpdatePackage and 5 with TransferPackage. The second argument of a CreatePackage
  statement, its batch, is the first argument of one of the five CreateBatch statements
  before it. The block number is printed in decimal digits.
\<close>

theorem seed_rows_shape:
  "\<exists>rows out. seed_rows env = Inr rows \<and> generate_seed env = Inr out
     \<and> length rows = 28
     \<and> out @ [CHR 0x0A] = concat (map (\<lambda>r.
        (''INSERT INTO transactions (id, tx_id, channel_name, chaincode_name, function_name, args, status, block_number, block_hash, timestamp) ''
         @ [CHR 0x0A] @ ''    VALUES (gen_random_uuid(), ''
         @ [CHR 0x27] @ r_tx_id r @ [CHR 0x27] @ '', ''
         @ [CHR 0x27] @ ''ibnchannel'' @ [CHR 0x27] @ '', ''
         @ [CHR 0x27] @ ''teatrace'' @ [CHR 0x27] @ '', ''
         @ [CHR 0x27] @ r_function_name r @ [CHR 0x27] @ '', ''
         @ [CHR 0x27] @ ''['' @ [CHR 0x22] @ hd (r_args r) @ [CHR 0x22]
           @ concat (map (\<lambda>a. '', '' @ [CHR 0x22] @ a @ [CHR 0x22]) (tl (r_args r))) @ '']''
           @ [CHR 0x27] @ '', ''
         @ [CHR 0x27] @ ''VALID'' @ [CHR 0x27] @ '', ''
         @ str_int (r_block_number r) @ '', ''
         @ [CHR 0x27] @ r_block_hash r @ [CHR 0x27] @ '', ''
         @ [CHR 0x27] @ r_timestamp r @ [CHR 0x27] @ '');'') @ [CHR 0x0A]) rows)
     \<and> map r_function_name rows =
         replicate 5 ''CreateBatch'' @ replicate 10 ''CreatePackage''
         @ replicate 8 ''UpdatePackage'' @ replicate 5 ''TransferPackage''
     \<and> (\<forall>r \<in> set rows. r_status r = ''VALID'' \<and> r_channel_name r = ''ibnchannel''
           \<and> r_chaincode_name r = ''teatrace'' \<and> r_args r \<noteq> []
           \<and> str_int (r_block_number r) \<noteq> []
           \<and> set (str_int (r_block_number r)) \<subseteq> set ''0123456789''
           \<and> int (foldl (\<lambda>v c. 10 * v + (of_char c - 48)) 0 (str_int (r_block_number r)))
               = r_block_number r)
     \<and> (\<forall>r \<in> set rows. r_function_name r = ''CreatePackage'' \<longrightarrow>
           length (r_args r) = 4
           \<and> r_args r ! 1 \<in> set (map (\<lambda>b. hd (r_args b)) (take 5 rows)))"
proof -
  let ?T = "\<lambda>r.
         ''INSERT INTO transactions (id, tx_id, channel_name, chaincode_name, function_name, args, status, block_number, block_hash, timestamp) ''
         @ [CHR 0x0A] @ ''    VALUES (gen_random_uuid(), ''
         @ [CHR 0x27] @ r_tx_id r @ [CHR 0x27] @ '', ''
         @ [CHR 0x27] @ ''ibnchannel'' @ [CHR 0x27] @ '', ''
         @ [CHR 0x27] @ ''teatrace'' @ [CHR 0x27] @ '', ''
         @ [CHR 0x27] @ r_function_name r @ [CHR 0x27] @ '', ''
         @ [CHR 0x27] @ ''['' @ [CHR 0x22] @ hd (r_args r) @ [CHR 0x22]
           @ concat (map (\<lambda>a. '', '' @ [CHR 0x22] @ a @ [CHR 0x22]) (tl (r_args r))) @ '']''
           @ [CHR 0x27] @ '', ''
         @ [CHR 0x27] @ ''VALID'' @ [CHR 0x27] @ '', ''
         @ str_int (r_block_number r) @ '', ''
         @ [CHR 0x27] @ r_block_hash r @ [CHR 0x27] @ '', ''
         @ [CHR 0x27] @ r_timestamp r @ [CHR 0x27] @ '');''"
  have "map (\<lambda>r. hd (r_args r)) (sql_rows initial_gen) = batches initial_gen
      \<and> packages initial_gen = []"
    by (simp add: initial_gen_def)
  from for_range_rows [of "\<lambda>g. map (\<lambda>r. hd (r_args r)) (sql_rows g) = batches g \<and> packages g = []"
      "create_batch env" "row_ok ''CreateBatch''" initial_gen "[0 ..< 5]",
      OF create_batch_step this]
  obtain g1 rs1 where 1: "for_range [0 ..< 5] (create_batch env) initial_gen = Inr g1"
    "map (\<lambda>r. hd (r_args r)) (sql_rows g1) = batches g1" "packages g1 = []"
    "sql_rows g1 = rs1" "length rs1 = 5" "\<forall>r \<in> set rs1. row_ok ''CreateBatch'' r"
    by (auto simp: initial_gen_def)
  from 1 have b: "batches g1 = map (\<lambda>r. hd (r_args r)) rs1" by simp
  with 1(5) have "batches g1 = batches g1 \<and> batches g1 \<noteq> []
      \<and> length (packages g1) + 5 = length (sql_rows g1)"
    using 1(3,4) by auto
  from for_range_rows [of "\<lambda>g. batches g = batches g1 \<and> batches g1 \<noteq> []
        \<and> length (packages g) + 5 = length (sql_rows g)"
      "create_package env"
      "\<lambda>r. row_ok ''CreatePackage'' r \<and> length (r_args r) = 4
         \<and> r_args r ! 1 \<in> set (batches g1)"
      g1 "[0 ..< 10]", OF create_package_step this]
  obtain g2 rs2 where 2: "for_range [0 ..< 10] (create_package env) g1 = Inr g2"
    "length (packages g2) + 5 = length (sql_rows g2)"
    "sql_rows g2 = rs1 @ rs2" "length rs2 = 10"
    "\<forall>r \<in> set rs2. row_ok ''CreatePackage'' r \<and> length (r_args r) = 4
       \<and> r_args r ! 1 \<in> set (batches g1)"
    using 1(4) by auto
  from 2(2,3,4) have "packages g2 \<noteq> []" by auto
  from for_range_rows [of "\<lambda>g. packages g \<noteq> []" "update_package env"
      "row_ok ''UpdatePackage''" g2 "[0 ..< 8]", OF update_package_step this]
  obtain g3 rs3 where 3: "for_range [0 ..< 8] (update_package env) g2 = Inr g3"
    "packages g3 \<noteq> []" "sql_rows g3 = rs1 @ rs2 @ rs3" "length rs3 = 8"
    "\<forall>r \<in> set rs3. row_ok ''UpdatePackage'' r"
    using 2(3) by auto
  from for_range_rows [of "\<lambda>g. packages g \<noteq> []" "transfer_package env"
      "row_ok ''TransferPackage''" g3 "[0 ..< 5]", OF transfer_package_step 3(2)]
  obtain g4 rs4 where 4: "for_range [0 ..< 5] (transfer_package env) g3 = Inr g4"
    "sql_rows g4 = rs1 @ rs2 @ rs3 @ rs4" "length rs4 = 5"
    "\<forall>r \<in> set rs4. row_ok ''TransferPackage'' r"
    using 3(3) by auto
  let ?rows = "rs1 @ rs2 @ rs3 @ rs4"
  have ok: "\<forall>r \<in> set ?rows. \<exists>fn. row_ok fn r"
    using 1(6) 2(5) 3(5) 4(4) by auto
  have rows: "seed_rows env = Inr ?rows"
    using 1(1) 2(1) 3(1) 4(1,2) by (simp add: seed_rows_def)
  have out: "generate_seed env = Inr (join [CHR 0x0A] (map sql_of ?rows))"
    using rows by (simp add: generate_seed_def)
  have len: "length ?rows = 28"
    using 1(5) 2(4) 3(4) 4(3) by simp
  have tmpl: "\<forall>r \<in> set ?rows. sql_of r = ?T r"
  proof
    fix r assume "r \<in> set ?rows"
    with ok obtain fn where fn: "row_ok fn r" by blast
    then have "r_function_name r = fn" by (simp add: row_ok_def)
    with sql_of_text [OF fn] show "sql_of r = ?T r" by simp
  qed
  have "?rows \<noteq> []" using len by auto
  then have "join [CHR 0x0A] (map sql_of ?rows) @ [CHR 0x0A]
      = concat (map (\<lambda>s. s @ [CHR 0x0A]) (map sql_of ?rows))"
    by (intro join_lines) simp
  also have "\<dots> = concat (map (\<lambda>r. sql_of r @ [CHR 0x0A]) ?rows)"
    by (simp add: comp_def)
  also have "\<dots> = concat (map (\<lambda>r. ?T r @ [CHR 0x0A]) ?rows)"
    using tmpl by (intro arg_cong [where f = concat] map_cong) (simp_all del: append_assoc)
  finally have outeq: "join [CHR 0x0A] (map sql_of ?rows) @ [CHR 0x0A]
      = concat (map (\<lambda>r. ?T r @ [CHR 0x0A]) ?rows)" .
  have "map r_function_name rs1 = replicate (length rs1) ''CreateBatch''"
    by (rule map_const_replicate) (use 1(6) in \<open>simp add: row_ok_def\<close>)
  then have fn1: "map r_function_name rs1 = replicate 5 ''CreateBatch''"
    unfolding 1(5) .
  have "map r_function_name rs2 = replicate (length rs2) ''CreatePackage''"
    by (rule map_const_replicate) (use 2(5) in \<open>simp add: row_ok_def\<close>)
  then have fn2: "map r_function_name rs2 = replicate 10 ''CreatePackage''"
    unfolding 2(4) .
  have "map r_function_name rs3 = replicate (length rs3) ''UpdatePackage''"
    by (rule map_const_replicate) (use 3(5) in \<open>simp add: row_ok_def\<close>)
  then have fn3: "map r_function_name rs3 = replicate 8 ''UpdatePackage''"
    unfolding 3(4) .
  have "map r_function_name rs4 = replicate (length rs4) ''TransferPackage''"
    by (rule map_const_replicate) (use 4(4) in \<open>simp add: row_ok_def\<close>)
  then have fn4: "map r_function_name rs4 = replicate 5 ''TransferPackage''"
    unfolding 4(3) .
  have fns: "map r_function_name ?rows =
         replicate 5 ''CreateBatch'' @ replicate 10 ''CreatePackage''
         @ replicate 8 ''UpdatePackage'' @ replicate 5 ''TransferPackage''"
    unfolding map_append fn1 fn2 fn3 fn4 ..
  have cols: "\<forall>r \<in> set ?rows. r_status r = ''VALID'' \<and> r_channel_name r = ''ibnchannel''
           \<and> r_chaincode_name r = ''teatrace'' \<and> r_args r \<noteq> []
           \<and> str_int (r_block_number r) \<noteq> []
           \<and> set (str_int (r_block_number r)) \<subseteq> set ''0123456789''
           \<and> int (foldl (\<lambda>v c. 10 * v + (of_char c - 48)) 0 (str_int (r_block_number r)))
               = r_block_number r"
  proof
    fix r assume "r \<in> set ?rows"
    with ok obtain fn where fn: "row_ok fn r" by blast
    then have "0 \<le> r_block_number r" by (simp add: row_ok_def)
    from str_int_text [OF this] fn
    show "r_status r = ''VALID'' \<and> r_channel_name r = ''ibnchannel''
           \<and> r_chaincode_name r = ''teatrace'' \<and> r_args r \<noteq> []
           \<and> str_int (r_block_number r) \<noteq> []
           \<and> set (str_int (r_block_number r)) \<subseteq> set ''0123456789''
           \<and> int (foldl (\<lambda>v c. 10 * v + (of_char c - 48)) 0 (str_int (r_block_number r)))
               = r_block_number r"
      by (simp add: row_ok_def)
  qed
  have t5: "take 5 ?rows = rs1" using 1(5) by simp
  have bat: "\<forall>r \<in> set ?rows. r_function_name r = ''CreatePackage'' \<longrightarrow>
           length (r_args r) = 4
           \<and> r_args r ! 1 \<in> set (map (\<lambda>b. hd (r_args b)) (take 5 ?rows))"
    unfolding t5 using 1(6) 2(5) 3(5) 4(4) b by (auto simp: row_ok_def)
  show ?thesis
    by (intro exI conjI) (rule rows out len outeq fns cols bat)+
qed

theorem seed_rows_shape_witness:
  "\<not> isl (seed_rows sample_env) \<and> \<not> isl (generate_seed sample_env)
   \<and> length (projr (seed_rows sample_env)) = 28
   \<and> projr (seed_rows sample_env) ! 5 \<in> set (projr (seed_rows sample_env))
   \<and> r_function_name (projr (seed_rows sample_env) ! 5) = ''CreatePackage''
   \<and> r_status (projr (seed_rows sample_env) ! 5) = ''VALID''
   \<and> length (r_args (projr (seed_rows sample_env) ! 5)) = 4
   \<and> r_args (projr (seed_rows sample_env) ! 5) ! 1
       \<in> set (map (\<lambda>b. hd (r_args b)) (take 5 (projr (seed_rows sample_env))))"
proof -
  from seed_rows_shape [of sample_env] obtain rows out where
    r: "seed_rows sample_env = Inr rows" and o: "generate_seed sample_env = Inr out"
    and l: "length rows = 28"
    and f: "map r_function_name rows =
         replicate 5 ''CreateBatch'' @ replicate 10 ''CreatePackage''
         @ replicate 8 ''UpdatePackage'' @ replicate 5 ''TransferPackage''"
    and c: "\<forall>r \<in> set rows. r_status r = ''VALID'' \<and> r_channel_name r = ''ibnchannel''
           \<and> r_chaincode_name r = ''teatrace'' \<and> r_args r \<noteq> []
           \<and> str_int (r_block_number r) \<noteq> []
           \<and> set (str_int (r_block_number r)) \<subseteq> set ''0123456789''
           \<and> int (foldl (\<lambda>v c. 10 * v + (of_char c - 48)) 0 (str_int (r_block_number r)))
               = r_block_number r"
    and b: "\<forall>r \<in> set rows. r_function_name r = ''CreatePackage'' \<longrightarrow>
           length (r_args r) = 4
           \<and> r_args r ! 1 \<in> set (map (\<lambda>b. hd (r_args b)) (take 5 rows))"
    by blast
  have m: "rows ! 5 \<in> set rows" using l by simp
  have "r_function_name (rows ! 5) = map r_function_name rows ! 5"
    using l by simp
  also have "\<dots> = ''CreatePackage''"
    unfolding f by (simp add: nth_append)
  finally have fn: "r_function_name (rows ! 5) = ''CreatePackage''" .
  from b m fn have a: "length (r_args (rows ! 5)) = 4"
    "r_args (rows ! 5) ! 1 \<in> set (map (\<lambda>b. hd (r_args b)) (take 5 rows))"
    by blast+
  from c m have s: "r_status (rows ! 5) = ''VALID''" by blast
  from r o l m fn s a show ?thesis by simp
qed

end
